theory Spec2Isabelle
  imports Main
begin

section \<open>Python strings\<close>

text \<open>
  A Python \<open>str\<close> is modelled as a \<^typ>\<open>string\<close> in which every \<^typ>\<open>char\<close> stands
  for one character (code point), so that \<^const>\<open>length\<close> is Python's \<open>len\<close>. The
  model covers the code points below 256; the characters from 128 upwards are the
  non-ASCII ones.
\<close>

definition NL :: string where
  "NL = [CHR 0x0A]"

definition DQ :: char where
  "DQ = CHR 0x22"

definition SQ :: char where
  "SQ = CHR 0x27"

definition BSL :: char where
  "BSL = CHR 0x5C"

text \<open>\<open>sep.join(parts)\<close>\<close>

fun str_join :: "string \<Rightarrow> string list \<Rightarrow> string" where
  "str_join sep [] = []"
| "str_join sep [p] = p"
| "str_join sep (p # q # ps) = p @ sep @ str_join sep (q # ps)"

text \<open>Iterating over a \<open>str\<close> yields its characters as strings of length one.\<close>

definition chars_of :: "string \<Rightarrow> string list" where
  "chars_of s = map (\<lambda>c. [c]) s"

text \<open>
  \<open>s.replace(old, new)\<close>: the occurrences of \<open>old\<close> are replaced from left to right,
  without overlap, in one pass. With an empty \<open>old\<close>, Python puts \<open>new\<close> before every
  character and at the end.
\<close>

function str_replace :: "string \<Rightarrow> string \<Rightarrow> string \<Rightarrow> string" where
  "str_replace s old new =
     (if old = [] then concat (map (\<lambda>c. new @ [c]) s) @ new
      else if s = [] then []
      else if take (length old) s = old
        then new @ str_replace (drop (length old) s) old new
      else hd s # str_replace (tl s) old new)"
  by pat_completeness auto
termination
  by (relation "measure (\<lambda>(s, old, new). length s)") auto

declare str_replace.simps [simp del]

text \<open>\<open>str.isspace\<close> on one character, for the code points below 256.\<close>

definition py_isspace :: "char \<Rightarrow> bool" where
  "py_isspace c =
     (let n = (of_char c :: nat)
      in (9 \<le> n \<and> n \<le> 13) \<or> (28 \<le> n \<and> n \<le> 32) \<or> n = 133 \<or> n = 160)"

text \<open>\<open>s.strip()\<close>\<close>

definition str_strip :: "string \<Rightarrow> string" where
  "str_strip s = rev (dropWhile py_isspace (rev (dropWhile py_isspace s)))"

text \<open>Decimal digits of a natural number, and \<open>str\<close> of a Python \<open>int\<close>.\<close>

definition digit_char :: "nat \<Rightarrow> char" where
  "digit_char d = ''0123456789abcdef'' ! d"

function dec_nat :: "nat \<Rightarrow> string" where
  "dec_nat n = (if n < 10 then [digit_char n] else dec_nat (n div 10) @ [digit_char (n mod 10)])"
  by pat_completeness auto
termination
  by (relation "measure id") auto

declare dec_nat.simps [simp del]

definition str_int :: "int \<Rightarrow> string" where
  "str_int i = (if i < 0 then ''-'' @ dec_nat (nat (- i)) else dec_nat (nat i))"

text \<open>Two lower-case hexadecimal digits of a code point below 256.\<close>

definition hex2 :: "nat \<Rightarrow> string" where
  "hex2 n = [digit_char (n div 16), digit_char (n mod 16)]"

section \<open>Python values\<close>

text \<open>
  The values a parsed JSON or YAML document is made of: \<open>None\<close>, \<open>bool\<close>, \<open>int\<close>,
  \<open>float\<close>, \<open>str\<close>, \<open>list\<close> and \<open>dict\<close> with string keys. A \<open>dict\<close> is an
  association list in insertion order; Python's dicts have no duplicate keys. A finite
  \<open>float\<close> is kept as the text that \<open>float.__repr__\<close> gives for it, which is all that
  the code reads of it; the other floats are \<open>nan\<close>, \<open>inf\<close> and \<open>-inf\<close>.
\<close>

datatype pyfloat =
    FloatRepr string
  | FloatNaN
  | FloatInf
  | FloatNegInf

datatype pyval =
    PNone
  | PBool bool
  | PInt int
  | PFloat pyfloat
  | PStr string
  | PList "pyval list"
  | PDict "(string \<times> pyval) list"

type_synonym pydict = "(string \<times> pyval) list"

subsection \<open>\<open>repr\<close> and \<open>str\<close>\<close>

text \<open>
  \<open>repr\<close> of a \<open>str\<close>: single quotes, unless the text has a single quote and no double
  quote; the quote in use and the backslash are escaped, tab, newline and carriage return
  are written \<open>\t\<close>, \<open>\n\<close>, \<open>\r\<close>, and the other characters that are not printable as
  \<open>\xhh\<close>.
\<close>

definition py_isprintable :: "char \<Rightarrow> bool" where
  "py_isprintable c =
     (let n = (of_char c :: nat)
      in (32 \<le> n \<and> n < 127) \<or> (161 \<le> n \<and> n \<noteq> 173))"

definition repr_char :: "char \<Rightarrow> char \<Rightarrow> string" where
  "repr_char quote c =
     (if c = quote \<or> c = BSL then [BSL, c]
      else if c = CHR 0x09 then [BSL, CHR ''t'']
      else if c = CHR 0x0A then [BSL, CHR ''n'']
      else if c = CHR 0x0D then [BSL, CHR ''r'']
      else if py_isprintable c then [c]
      else [BSL, CHR ''x''] @ hex2 (of_char c))"

definition repr_str :: "string \<Rightarrow> string" where
  "repr_str s =
     (let quote = (if SQ \<in> set s \<and> DQ \<notin> set s then DQ else SQ)
      in [quote] @ concat (map (repr_char quote) s) @ [quote])"

fun float_repr :: "pyfloat \<Rightarrow> string" where
  "float_repr (FloatRepr r) = r"
| "float_repr FloatNaN = ''nan''"
| "float_repr FloatInf = ''inf''"
| "float_repr FloatNegInf = ''-inf''"

fun py_repr :: "pyval \<Rightarrow> string" where
  "py_repr PNone = ''None''"
| "py_repr (PBool b) = (if b then ''True'' else ''False'')"
| "py_repr (PInt i) = str_int i"
| "py_repr (PFloat f) = float_repr f"
| "py_repr (PStr s) = repr_str s"
| "py_repr (PList xs) = ''['' @ str_join '', '' (map py_repr xs) @ '']''"
| "py_repr (PDict kvs) =
     ''{'' @ str_join '', '' (map (\<lambda>kv. repr_str (fst kv) @ '': '' @ py_repr (snd kv)) kvs) @ ''}''"

text \<open>What an f-string substitutes for \<open>{v}\<close>: \<open>str(v)\<close>.\<close>

fun py_str :: "pyval \<Rightarrow> string" where
  "py_str (PStr s) = s"
| "py_str v = py_repr v"

subsection \<open>\<open>json.dumps(v, indent=2, ensure_ascii=False)\<close>\<close>

text \<open>
  Without \<open>ensure_ascii\<close> the encoder escapes only the double quote, the backslash and
  the control characters below 0x20; every other character is written as it is.
\<close>

definition json_escape_char :: "char \<Rightarrow> string" where
  "json_escape_char c =
     (if c = DQ then [BSL, DQ]
      else if c = BSL then [BSL, BSL]
      else if c = CHR 0x0A then [BSL, CHR ''n'']
      else if c = CHR 0x0D then [BSL, CHR ''r'']
      else if c = CHR 0x09 then [BSL, CHR ''t'']
      else if c = CHR 0x08 then [BSL, CHR ''b'']
      else if c = CHR 0x0C then [BSL, CHR ''f'']
      else if (of_char c :: nat) < 32 then [BSL, CHR ''u'', CHR ''0'', CHR ''0''] @ hex2 (of_char c)
      else [c])"

definition json_string :: "string \<Rightarrow> string" where
  "json_string s = [DQ] @ concat (map json_escape_char s) @ [DQ]"

text \<open>A newline followed by the indentation of nesting level \<open>lvl\<close>, two spaces a level.\<close>

definition newline_indent :: "nat \<Rightarrow> string" where
  "newline_indent lvl = NL @ replicate (2 * lvl) (CHR '' '')"

text \<open>The encoder writes a finite float by its \<open>repr\<close>, and has names of its own for the others.\<close>

fun json_float :: "pyfloat \<Rightarrow> string" where
  "json_float (FloatRepr r) = r"
| "json_float FloatNaN = ''NaN''"
| "json_float FloatInf = ''Infinity''"
| "json_float FloatNegInf = ''-Infinity''"

fun json_encode :: "nat \<Rightarrow> pyval \<Rightarrow> string" where
  "json_encode lvl PNone = ''null''"
| "json_encode lvl (PBool b) = (if b then ''true'' else ''false'')"
| "json_encode lvl (PInt i) = str_int i"
| "json_encode lvl (PFloat f) = json_float f"
| "json_encode lvl (PStr s) = json_string s"
| "json_encode lvl (PList xs) =
     (if xs = [] then ''[]''
      else ''['' @ newline_indent (Suc lvl)
        @ str_join ('','' @ newline_indent (Suc lvl)) (map (json_encode (Suc lvl)) xs)
        @ newline_indent lvl @ '']'')"
| "json_encode lvl (PDict kvs) =
     (if kvs = [] then ''{}''
      else ''{'' @ newline_indent (Suc lvl)
        @ str_join ('','' @ newline_indent (Suc lvl))
            (map (\<lambda>kv. json_string (fst kv) @ '': '' @ json_encode (Suc lvl) (snd kv)) kvs)
        @ newline_indent lvl @ ''}'')"

definition json_dumps :: "pyval \<Rightarrow> string" where
  "json_dumps v = json_encode 0 v"

section \<open>Exceptions\<close>

text \<open>
  The exceptions derived from \<open>Exception\<close> that can reach the code: a \<open>KeyError\<close> with
  the missing key, the \<open>UnboundLocalError\<close> of a local variable read before its
  assignment, any other exception raised by a collaborator (the assistant backend, the
  messaging platform, the logging module) with its description, and an exception group
  with its members. Python's exception groups are never empty.
\<close>

datatype py_exc =
    KeyError string
  | UnboundLocalError string
  | OtherError string
  | ExceptionGroup "py_exc list"

text \<open>\<open>d[k]\<close> and \<open>d.get(k)\<close> on a dict\<close>

definition dict_getitem :: "pydict \<Rightarrow> string \<Rightarrow> py_exc + pyval" where
  "dict_getitem d k = (case map_of d k of None \<Rightarrow> Inl (KeyError k) | Some v \<Rightarrow> Inr v)"

definition dict_get :: "pydict \<Rightarrow> string \<Rightarrow> pyval" where
  "dict_get d k = (case map_of d k of None \<Rightarrow> PNone | Some v \<Rightarrow> v)"

section \<open>Response events and the flattener\<close>

text \<open>
  The events of the assistant backend: an \<open>AssistantMessage\<close> with its content blocks,
  or any other message. A block is a \<open>TextBlock\<close> with its text, a \<open>ToolUseBlock\<close> with
  its id, name and input, or any other block. A query gives the events it yields, in
  order, and then either ends or raises.
\<close>

datatype content_block =
    TextBlock string
  | ToolUseBlock string string pydict
  | OtherBlock

datatype sdk_message =
    AssistantMessage "content_block list"
  | OtherMessage

datatype response_stream = Stream (events: "sdk_message list") (failure: "py_exc option")

definition bold :: "string \<Rightarrow> string" where
  "bold name = ''**'' @ name @ ''**''"

definition fenced :: "string \<Rightarrow> string" where
  "fenced body = ''```'' @ NL @ body @ NL @ ''```''"

text \<open>
  The body of the loop over the blocks of one message (lines 104 to 116): the fragments
  collected so far go in, and come out extended, unless the lookup of \<open>command\<close> raises.
  When it raises, the bold name is already appended; the list is not read again on that
  path, so the exception alone is kept.
\<close>

fun flatten_block :: "content_block \<Rightarrow> string list \<Rightarrow> py_exc + string list" where
  "flatten_block (TextBlock t) responses = Inr (responses @ [t])"
| "flatten_block (ToolUseBlock i name inp) responses =
     (if name = ''Bash'' then
        (case dict_getitem inp ''command'' of
           Inl e \<Rightarrow> Inl e
         | Inr c \<Rightarrow>
             Inr (responses @ [bold name]
               @ [fenced (''$ '' @ py_str c @ '' # '' @ py_str (dict_get inp ''description''))]))
      else Inr (responses @ [bold name] @ [fenced (json_dumps (PDict inp))]))"
| "flatten_block OtherBlock responses = Inr responses"

fun flatten_blocks :: "content_block list \<Rightarrow> string list \<Rightarrow> py_exc + string list" where
  "flatten_blocks [] responses = Inr responses"
| "flatten_blocks (b # bs) responses =
     (case flatten_block b responses of
        Inl e \<Rightarrow> Inl e
      | Inr responses' \<Rightarrow> flatten_blocks bs responses')"

fun flatten_message :: "sdk_message \<Rightarrow> string list \<Rightarrow> py_exc + string list" where
  "flatten_message (AssistantMessage blocks) responses = flatten_blocks blocks responses"
| "flatten_message OtherMessage responses = Inr responses"

fun flatten_events :: "sdk_message list \<Rightarrow> string list \<Rightarrow> py_exc + string list" where
  "flatten_events [] responses = Inr responses"
| "flatten_events (r # rs) responses =
     (case flatten_message r responses of
        Inl e \<Rightarrow> Inl e
      | Inr responses' \<Rightarrow> flatten_events rs responses')"

text \<open>
  The whole \<open>async for\<close> loop, starting from \<open>responses = []\<close>: an exception of a block
  ends the loop at once, and the failure of the backend, if any, comes after its last
  event.
\<close>

definition flatten :: "response_stream \<Rightarrow> py_exc + string list" where
  "flatten s =
     (case flatten_events (events s) [] of
        Inl e \<Rightarrow> Inl e
      | Inr responses \<Rightarrow> (case failure s of None \<Rightarrow> Inr responses | Some e \<Rightarrow> Inl e))"

section \<open>Configuration, bot and messages\<close>

text \<open>
  The configuration document: sections by name, each with its keys; the values read by
  the code are strings. \<open>config[sec][key]\<close> raises a \<open>KeyError\<close> for a missing section
  or key.
\<close>

type_synonym config_section = "(string \<times> string) list"

type_synonym config = "(string \<times> config_section) list"

definition config_get :: "config \<Rightarrow> string \<Rightarrow> string \<Rightarrow> py_exc + string" where
  "config_get cfg sec key =
     (case map_of cfg sec of
        None \<Rightarrow> Inl (KeyError sec)
      | Some entries \<Rightarrow> (case map_of entries key of None \<Rightarrow> Inl (KeyError key) | Some v \<Rightarrow> Inr v))"

text \<open>
  The bot holds the configuration; \<open>self.user\<close> is the identity the platform gives it at
  login. Users are compared by their numeric id.
\<close>

record bot =
  config :: config
  user :: nat

record message =
  author :: nat
  content :: string
  mentions :: "nat list"

text \<open>
  What one handling of a message leaves behind: the replies sent, in order, the errors
  logged at error level, the prompts passed to the assistant backend, and the exception
  that left the handler, if any. Entries logged at info level are not recorded.
\<close>

record outcome =
  replies :: "string list"
  errors_logged :: "py_exc list"
  queried :: "string list"
  escaped :: "py_exc option"

definition idle :: outcome where
  "idle = \<lparr>replies = [], errors_logged = [], queried = [], escaped = None\<rparr>"

section \<open>Handling a mention\<close>

text \<open>
  \<open>message.reply(text)\<close>: the platform either takes the message, and the reply is sent,
  or refuses it, and the call raises. Which texts the platform takes is a parameter.
\<close>

definition reply :: "(string \<Rightarrow> bool) \<Rightarrow> string \<Rightarrow> outcome \<Rightarrow> py_exc option \<times> outcome" where
  "reply accepts text st =
     (if accepts text then (None, st\<lparr>replies := replies st @ [text]\<rparr>)
      else (Some (OtherError ''HTTPException''), st))"

text \<open>\<open>message.reply(self.config["messages"][key])\<close>: the lookup comes first.\<close>

definition reply_template ::
  "config \<Rightarrow> (string \<Rightarrow> bool) \<Rightarrow> string \<Rightarrow> outcome \<Rightarrow> py_exc option \<times> outcome" where
  "reply_template cfg accepts key st =
     (case config_get cfg ''messages'' key of
        Inl e \<Rightarrow> (Some e, st)
      | Inr t \<Rightarrow> reply accepts t st)"

text \<open>Line 82: the mention token is removed and the rest is stripped.\<close>

definition mention_token :: "bot \<Rightarrow> string" where
  "mention_token b = ''<@'' @ dec_nat (user b) @ ''>''"

definition extract_prompt :: "bot \<Rightarrow> message \<Rightarrow> string" where
  "extract_prompt b m = str_strip (str_replace (content m) (mention_token b) [])"

text \<open>
  Lines 122 to 131. \<open>responses\<close> is rebound to the joined text, a \<open>str\<close>; the last
  branch joins it once more, now over its characters.
\<close>

definition reply_policy ::
  "config \<Rightarrow> (string \<Rightarrow> bool) \<Rightarrow> string list \<Rightarrow> outcome \<Rightarrow> py_exc option \<times> outcome" where
  "reply_policy cfg accepts fragments st =
     (let responses = str_join NL fragments
      in if responses \<noteq> [] \<and> length responses > 4000
           then reply_template cfg accepts ''long_response_warning'' st
         else if length responses = 0
           then reply_template cfg accepts ''empty_response'' st
         else reply accepts (str_join NL (chars_of responses)) st)"

text \<open>
  The body of the \<open>try\<close> (lines 81 to 131), with the exception it raises, if any. The
  backend is a parameter: \<open>query prompt\<close> is the stream the assistant gives for the
  prompt under the options fixed at construction. The typing indicator and the entries
  logged at info level are taken to succeed.
\<close>

definition try_body ::
  "bot \<Rightarrow> (string \<Rightarrow> bool) \<Rightarrow> (string \<Rightarrow> response_stream) \<Rightarrow> message \<Rightarrow> py_exc option \<times> outcome" where
  "try_body b accepts query m =
     (let user_content = extract_prompt b m
      in if user_content = [] then reply_template (config b) accepts ''empty_message'' idle
         else
           (let st = idle\<lparr>queried := [user_content]\<rparr>
            in case flatten (query user_content) of
                 Inl e \<Rightarrow> (Some e, st)
               | Inr fragments \<Rightarrow> reply_policy (config b) accepts fragments st))"

text \<open>
  \<open>except* Exception as e_group\<close>: a group is caught as it is, any other exception is
  wrapped into a group of one; \<open>e_group.exceptions\<close> are the members.
\<close>

fun e_group_exceptions :: "py_exc \<Rightarrow> py_exc list" where
  "e_group_exceptions (ExceptionGroup es) = es"
| "e_group_exceptions e = [e]"

text \<open>
  The loop of the handler (lines 134 to 138): every member is logged and answered. An
  exception raised in the handler ends the loop and leaves \<open>handle_mention\<close> as it is:
  \<open>except*\<close> lets the one exception raised in its clause pass without wrapping it.
\<close>

fun except_loop :: "config \<Rightarrow> (string \<Rightarrow> bool) \<Rightarrow> py_exc list \<Rightarrow> outcome \<Rightarrow> outcome" where
  "except_loop cfg accepts [] st = st"
| "except_loop cfg accepts (e # es) st =
     (case reply_template cfg accepts ''general_error'' (st\<lparr>errors_logged := errors_logged st @ [e]\<rparr>) of
        (Some x, st') \<Rightarrow> st'\<lparr>escaped := Some x\<rparr>
      | (None, st') \<Rightarrow> except_loop cfg accepts es st')"

definition handle_mention ::
  "bot \<Rightarrow> (string \<Rightarrow> bool) \<Rightarrow> (string \<Rightarrow> response_stream) \<Rightarrow> message \<Rightarrow> outcome" where
  "handle_mention b accepts query m =
     (case try_body b accepts query m of
        (None, st) \<Rightarrow> st
      | (Some e, st) \<Rightarrow> except_loop (config b) accepts (e_group_exceptions e) st)"

text \<open>
  \<open>on_message\<close>: the bot's own messages are ignored, a message that mentions the bot
  is handled. The call of \<open>process_commands\<close> that follows belongs to the command
  framework: this code registers no command, and what the framework does is not part
  of the outcome.
\<close>

definition on_message ::
  "bot \<Rightarrow> (string \<Rightarrow> bool) \<Rightarrow> (string \<Rightarrow> response_stream) \<Rightarrow> message \<Rightarrow> outcome" where
  "on_message b accepts query m =
     (if author m = user b then idle
      else if user b \<in> set (mentions m) then handle_mention b accepts query m
      else idle)"

section \<open>Startup\<close>

text \<open>
  The logging module is a parameter: \<open>has_attr name\<close> tells whether \<open>logging\<close> has the
  attribute \<open>name\<close>, and \<open>basic_config name fmt\<close> is the exception, if any, that
  \<open>logging.basicConfig\<close> raises when it is given that attribute as the level and \<open>fmt\<close>
  as the format: it refuses a format that is not valid for the \<open>%\<close> style and a value that
  is no level.
\<close>

record logging_module =
  has_attr :: "string \<Rightarrow> bool"
  basic_config :: "string \<Rightarrow> string \<Rightarrow> py_exc option"

text \<open>
  \<open>setup_logging\<close>: the arguments of \<open>logging.basicConfig\<close> are evaluated from left to
  right, the level with its \<open>getattr\<close>, then the format, and then the call is made.
\<close>

definition setup_logging :: "logging_module \<Rightarrow> config \<Rightarrow> py_exc option" where
  "setup_logging logging cfg =
     (case config_get cfg ''logging'' ''level'' of
        Inl e \<Rightarrow> Some e
      | Inr lv \<Rightarrow>
          if \<not> has_attr logging lv then Some (OtherError ''AttributeError'')
          else
            (case config_get cfg ''logging'' ''format'' of
               Inl e \<Rightarrow> Some e
             | Inr fmt \<Rightarrow> basic_config logging lv fmt))"

text \<open>
  \<open>main\<close>, from the result of \<open>load_config\<close> (\<open>None\<close> when the file is missing or is not
  YAML): it returns, dies of an exception, or starts the bot with the token. In the first
  branch \<open>logger\<close> is read before the assignment of line 202 that makes it a local
  variable. Line 198 copies the API key into the environment and raises nothing.
\<close>

datatype startup =
    Returned
  | Crashed py_exc
  | Started config string

definition main :: "logging_module \<Rightarrow> config option \<Rightarrow> startup" where
  "main logging loaded =
     (case loaded of
        None \<Rightarrow> Crashed (UnboundLocalError ''logger'')
      | Some cfg \<Rightarrow>
          if cfg = [] then Crashed (UnboundLocalError ''logger'')
          else
            (case setup_logging logging cfg of
               Some e \<Rightarrow> Crashed e
             | None \<Rightarrow>
                 (case config_get cfg ''discord'' ''bot_token'' of
                    Inl e \<Rightarrow> Crashed e
                  | Inr token \<Rightarrow>
                      if token = [] \<or> token = ''your_discord_bot_token_here'' then Returned
                      else
                        (case config_get cfg ''discord'' ''prefix'' of
                           Inl e \<Rightarrow> Crashed e
                         | Inr prefix \<Rightarrow> Started cfg token))))"

section \<open>Example inputs\<close>

definition example_config :: config where
  "example_config =
     [(''discord'', [(''bot_token'', ''token''), (''prefix'', ''!'')]),
      (''logging'', [(''level'', ''INFO''), (''format'', ''%(message)s'')]),
      (''messages'',
         [(''empty_message'', ''Please write a message.''),
          (''long_response_warning'', ''The response is too long.''),
          (''empty_response'', ''There was no response.''),
          (''general_error'', ''An error occurred.'')])]"

definition example_bot :: bot where
  "example_bot = \<lparr>config = example_config, user = 42\<rparr>"

definition example_mention :: message where
  "example_mention = \<lparr>author = 7, content = ''<@42> hi'', mentions = [42]\<rparr>"

text \<open>A platform that takes every reply.\<close>

definition accept_all :: "string \<Rightarrow> bool" where
  "accept_all text = True"

text \<open>Backends: one that answers, and some that fail after a first text.\<close>

definition one_answer :: "string \<Rightarrow> response_stream" where
  "one_answer prompt = Stream [AssistantMessage [TextBlock ''hello'']] None"

definition short_answer :: "string \<Rightarrow> response_stream" where
  "short_answer prompt = Stream [AssistantMessage [TextBlock ''hi'']] None"

definition connection_lost :: "string \<Rightarrow> response_stream" where
  "connection_lost prompt =
     Stream [AssistantMessage [TextBlock ''partial'']] (Some (OtherError ''connection lost''))"

definition two_errors :: "string \<Rightarrow> response_stream" where
  "two_errors prompt =
     Stream [AssistantMessage [TextBlock ''partial'']]
       (Some (ExceptionGroup [OtherError ''first'', OtherError ''second'']))"

definition three_errors :: "string \<Rightarrow> response_stream" where
  "three_errors prompt =
     Stream [] (Some (ExceptionGroup [OtherError ''first'', OtherError ''second'', OtherError ''third'']))"

definition bash_without_command :: "string \<Rightarrow> response_stream" where
  "bash_without_command prompt =
     Stream [AssistantMessage
        [TextBlock ''running'', ToolUseBlock ''toolu_3'' ''Bash'' [(''cmd'', PStr ''ls'')]]] None"

text \<open>Mentions with nothing but the mention token.\<close>

definition empty_mention :: message where
  "empty_mention = \<lparr>author = 7, content = '' <@42>  '', mentions = [42]\<rparr>"

definition bare_mention :: message where
  "bare_mention = \<lparr>author = 7, content = ''<@42>'', mentions = [42]\<rparr>"

text \<open>
  A configuration that has no \<open>messages\<close> section. And a logging module for the
  examples, which knows of the real one the five usual level names and two valid formats,
  one of them the format of the examples, and refuses everything else.
\<close>

definition config_without_templates :: config where
  "config_without_templates =
     [(''discord'', [(''bot_token'', ''token''), (''prefix'', ''!'')]),
      (''logging'', [(''level'', ''INFO''), (''format'', ''%(message)s'')])]"

definition example_logging :: logging_module where
  "example_logging =
     \<lparr>has_attr = (\<lambda>name. name \<in> set [''DEBUG'', ''INFO'', ''WARNING'', ''ERROR'', ''CRITICAL'']),
      basic_config = (\<lambda>name fmt.
         if fmt \<in> set [''%(message)s'', ''%(asctime)s - %(name)s - %(levelname)s - %(message)s'']
         then None else Some (OtherError ''ValueError''))\<rparr>"

text \<open>Configurations with the \<open>general_error\<close> template only, with no template, and without the warning.\<close>

definition config_general_error_only :: config where
  "config_general_error_only = [(''messages'', [(''general_error'', ''An error occurred.'')])]"

definition config_empty_messages :: config where
  "config_empty_messages =
     [(''discord'', [(''bot_token'', ''token''), (''prefix'', ''!'')]),
      (''logging'', [(''level'', ''INFO''), (''format'', ''%(message)s'')]),
      (''messages'', [])]"

definition config_without_warning :: config where
  "config_without_warning =
     [(''discord'', [(''bot_token'', ''token''), (''prefix'', ''!'')]),
      (''logging'', [(''level'', ''INFO''), (''format'', ''%(message)s'')]),
      (''messages'',
         [(''empty_message'', ''Please write a message.''),
          (''empty_response'', ''There was no response.''),
          (''general_error'', ''An error occurred.'')])]"

text \<open>A platform that takes the apology and nothing else.\<close>

definition only_apology :: "string \<Rightarrow> bool" where
  "only_apology text = (text = ''An error occurred.'')"

text \<open>More backends: a second one that fails with a group, a silent one and a verbose one.\<close>

definition two_timeouts :: "string \<Rightarrow> response_stream" where
  "two_timeouts prompt =
     Stream [AssistantMessage [TextBlock ''partial'']]
       (Some (ExceptionGroup [OtherError ''timeout'', OtherError ''broken pipe'']))"

definition no_answer :: "string \<Rightarrow> response_stream" where
  "no_answer prompt = Stream [] None"

definition long_answer :: "string \<Rightarrow> response_stream" where
  "long_answer prompt = Stream [AssistantMessage [TextBlock (replicate 4001 (CHR ''x''))]] None"

text \<open>A tool input with a list, a dict, a non-ASCII character, a quote, a float and a negative number.\<close>

definition nested_input :: pydict where
  "nested_input =
     [(''a'', PList [PInt 1, PDict [(''b'', PNone)]]),
      (''e'', PStr [CHR 0xE9, CHR 0x22]),
      (''f'', PFloat (FloatRepr ''1.5'')),
      (''g'', PInt (- 120))]"

section \<open>The flattener\<close>

text \<open>The only exception the flattener itself raises is the \<open>KeyError\<close> of \<open>command\<close>.\<close>

lemma flatten_block_Inl: "flatten_block b rs = Inl e \<Longrightarrow> e = KeyError ''command''"
  by (cases b) (auto simp: dict_getitem_def split: if_splits option.splits)

lemma flatten_blocks_Inl: "flatten_blocks bs rs = Inl e \<Longrightarrow> e = KeyError ''command''"
  by (induction bs arbitrary: rs) (auto split: sum.splits dest: flatten_block_Inl)

lemma flatten_message_Inl: "flatten_message r rs = Inl e \<Longrightarrow> e = KeyError ''command''"
  by (cases r) (auto dest: flatten_blocks_Inl)

lemma flatten_events_Inl: "flatten_events evs rs = Inl e \<Longrightarrow> e = KeyError ''command''"
proof (induction evs arbitrary: rs)
  case Nil
  then show ?case by simp
next
  case (Cons r evs)
  show ?case
  proof (cases "flatten_message r rs")
    case (Inl x)
    with Cons.prems have "flatten_message r rs = Inl e" by simp
    then show ?thesis by (rule flatten_message_Inl)
  next
    case (Inr rs')
    with Cons.prems have "flatten_events evs rs' = Inl e" by simp
    then show ?thesis by (rule Cons.IH)
  qed
qed

lemma flatten_failure:
  assumes "failure s = Some e"
  shows "flatten s = Inl e \<or> flatten s = Inl (KeyError ''command'')"
  using assms by (auto simp: flatten_def split: sum.splits dest: flatten_events_Inl)

lemma bash_block_without_command:
  assumes "''command'' \<notin> fst ` set inp"
  shows "flatten_block (ToolUseBlock i ''Bash'' inp) rs = Inl (KeyError ''command'')"
proof -
  from assms have "map_of inp ''command'' = None" by (simp add: map_of_eq_None_iff)
  then show ?thesis by (simp add: dict_getitem_def)
qed

lemma flatten_blocks_without_command:
  assumes "ToolUseBlock i ''Bash'' inp \<in> set bs" and "''command'' \<notin> fst ` set inp"
  shows "flatten_blocks bs rs = Inl (KeyError ''command'')"
  using assms(1)
proof (induction bs arbitrary: rs)
  case Nil
  then show ?case by simp
next
  case (Cons b bs)
  show ?case
  proof (cases "flatten_block b rs")
    case (Inl e)
    then show ?thesis using flatten_block_Inl [OF Inl] by simp
  next
    case (Inr rs')
    with assms(2) have "b \<noteq> ToolUseBlock i ''Bash'' inp"
      using bash_block_without_command [of inp i rs] by auto
    with Cons.prems have "ToolUseBlock i ''Bash'' inp \<in> set bs" by simp
    then show ?thesis using Inr Cons.IH by simp
  qed
qed

lemma flatten_events_without_command:
  assumes "AssistantMessage bs \<in> set evs" and "ToolUseBlock i ''Bash'' inp \<in> set bs"
    and "''command'' \<notin> fst ` set inp"
  shows "flatten_events evs rs = Inl (KeyError ''command'')"
  using assms(1)
proof (induction evs arbitrary: rs)
  case Nil
  then show ?case by simp
next
  case (Cons r evs)
  show ?case
  proof (cases "flatten_message r rs")
    case (Inl e)
    then show ?thesis using flatten_message_Inl [OF Inl] by simp
  next
    case (Inr rs')
    have "r \<noteq> AssistantMessage bs"
      using Inr flatten_blocks_without_command [OF assms(2,3), of rs] by auto
    with Cons.prems have "AssistantMessage bs \<in> set evs" by simp
    then show ?thesis using Inr Cons.IH by simp
  qed
qed

text \<open>
  The fragments are only ever appended to, and a sequence of blocks or events is flattened
  part after part: the order of the fragments is the order of the blocks.
\<close>

lemma flatten_block_extends: "flatten_block b rs = Inr rs' \<Longrightarrow> \<exists>new. rs' = rs @ new"
  by (cases b) (auto split: if_splits sum.splits)

lemma flatten_blocks_append:
  "flatten_blocks (bs @ cs) rs =
     (case flatten_blocks bs rs of Inl e \<Rightarrow> Inl e | Inr rs' \<Rightarrow> flatten_blocks cs rs')"
  by (induction bs arbitrary: rs) (auto split: sum.splits)

lemma flatten_events_append:
  "flatten_events (xs @ ys) rs =
     (case flatten_events xs rs of Inl e \<Rightarrow> Inl e | Inr rs' \<Rightarrow> flatten_events ys rs')"
  by (induction xs arbitrary: rs) (auto split: sum.splits)

lemma flatten_blocks_extends: "flatten_blocks bs rs = Inr rs' \<Longrightarrow> \<exists>new. rs' = rs @ new"
proof (induction bs arbitrary: rs)
  case Nil
  then show ?case by simp
next
  case (Cons b bs)
  from Cons.prems obtain mid where b: "flatten_block b rs = Inr mid" and bs: "flatten_blocks bs mid = Inr rs'"
    by (auto split: sum.splits)
  from flatten_block_extends [OF b] obtain n1 where "mid = rs @ n1" by blast
  moreover from Cons.IH [OF bs] obtain n2 where "rs' = mid @ n2" by blast
  ultimately show ?case by simp
qed

section \<open>The JSON encoder\<close>

lemma str_join_prefixed:
  "xs \<noteq> [] \<Longrightarrow> pre @ str_join (sep @ pre) (map f xs) = str_join sep (map (\<lambda>x. pre @ f x) xs)"
proof (induction xs rule: induct_list012)
  case 1
  then show ?case by simp
next
  case (2 x)
  then show ?case by simp
next
  case (3 x y zs)
  then show ?case by simp
qed

lemma newline_indent_0: "newline_indent 0 = NL"
  by (simp add: newline_indent_def)

lemma newline_indent_1: "newline_indent (Suc 0) = NL @ ''  ''"
  by (simp add: newline_indent_def numeral_2_eq_2)

lemma json_dumps_dict_lines:
  assumes "inp \<noteq> []"
  shows "json_dumps (PDict inp) =
     ''{'' @ NL @ str_join ('','' @ NL)
        (map (\<lambda>kv. ''  '' @ json_string (fst kv) @ '': '' @ json_encode 1 (snd kv)) inp) @ NL @ ''}''"
proof -
  let ?f = "\<lambda>kv. json_string (fst kv) @ '': '' @ json_encode (Suc 0) (snd kv)"
  have "json_dumps (PDict inp) =
      ''{'' @ NL @ (''  '' @ str_join (('','' @ NL) @ ''  '') (map ?f inp)) @ NL @ ''}''"
    using assms by (simp add: json_dumps_def newline_indent_0 newline_indent_1)
  also have "''  '' @ str_join (('','' @ NL) @ ''  '') (map ?f inp)
      = str_join ('','' @ NL) (map (\<lambda>kv. ''  '' @ ?f kv) inp)"
    using assms by (rule str_join_prefixed)
  finally show ?thesis by simp
qed

lemma of_char_DQ: "(of_char DQ :: nat) = 34"
  by (simp add: DQ_def)

lemma of_char_BSL: "(of_char BSL :: nat) = 92"
  by (simp add: BSL_def)

lemma json_escape_char_non_ascii:
  assumes "128 \<le> (of_char c :: nat)"
  shows "json_escape_char c = [c]"
proof -
  have "c \<noteq> DQ" using assms of_char_DQ by auto
  moreover have "c \<noteq> BSL" using assms of_char_BSL by auto
  moreover have "c \<noteq> CHR 0x0A" "c \<noteq> CHR 0x0D" "c \<noteq> CHR 0x09" "c \<noteq> CHR 0x08" "c \<noteq> CHR 0x0C"
    using assms by auto
  moreover have "\<not> (of_char c :: nat) < 32" using assms by simp
  ultimately show ?thesis by (simp add: json_escape_char_def)
qed

lemma json_string_non_ascii:
  assumes "\<forall>c \<in> set s. 128 \<le> (of_char c :: nat)"
  shows "json_string s = [DQ] @ s @ [DQ]"
proof -
  have "concat (map json_escape_char s) = s"
    using assms by (induction s) (simp_all add: json_escape_char_non_ascii)
  then show ?thesis by (simp add: json_string_def)
qed

text \<open>The text of the encoder, constructor by constructor.\<close>

lemma digit_char_decimal: "d < 10 \<Longrightarrow> digit_char d = ''0123456789'' ! d"
proof -
  assume "d < 10"
  have "''0123456789abcdef'' = ''0123456789'' @ ''abcdef''" by simp
  then have "''0123456789abcdef'' ! d = (''0123456789'' @ ''abcdef'') ! d" by simp
  also have "\<dots> = ''0123456789'' ! d" using \<open>d < 10\<close> by (simp only: nth_append) simp
  finally show ?thesis by (simp add: digit_char_def)
qed

lemma json_encode_digit:
  assumes "0 \<le> i" and "i < 10"
  shows "json_encode lvl (PInt i) = [''0123456789'' ! nat i]"
proof -
  have "nat i < 10" using assms by simp
  then show ?thesis
    using assms(1) digit_char_decimal [of "nat i"] by (simp add: str_int_def dec_nat.simps)
qed

lemma json_encode_digits:
  assumes "10 \<le> i"
  shows "json_encode lvl (PInt i) = json_encode lvl (PInt (i div 10)) @ json_encode lvl (PInt (i mod 10))"
proof -
  have n: "\<not> nat i < 10" using assms by simp
  have d: "nat (i div 10) = nat i div 10" using assms by (simp add: nat_div_distrib)
  have m: "nat (i mod 10) = nat i mod 10" using assms by (simp add: nat_mod_distrib)
  have "dec_nat (nat i) = dec_nat (nat i div 10) @ [digit_char (nat i mod 10)]"
    using n by (subst dec_nat.simps) simp
  moreover have "dec_nat (nat i mod 10) = [digit_char (nat i mod 10)]"
    by (subst dec_nat.simps) simp
  moreover have "\<not> i div 10 < 0" "\<not> i mod 10 < 0" "\<not> i < 0" using assms by simp_all
  ultimately show ?thesis by (simp add: str_int_def d m)
qed

lemma json_encode_negative:
  assumes "i < 0"
  shows "json_encode lvl (PInt i) = ''-'' @ json_encode lvl (PInt (- i))"
  using assms by (simp add: str_int_def)

lemma json_escape_char_plain:
  assumes "c \<noteq> CHR 0x22" and "c \<noteq> CHR 0x5C" and "32 \<le> (of_char c :: nat)"
  shows "json_escape_char c = [c]"
proof -
  have "c \<noteq> CHR 0x0A" "c \<noteq> CHR 0x0D" "c \<noteq> CHR 0x09" "c \<noteq> CHR 0x08" "c \<noteq> CHR 0x0C"
    using assms(3) by auto
  moreover have "\<not> (of_char c :: nat) < 32" using assms(3) by simp
  ultimately show ?thesis using assms(1,2) by (simp add: json_escape_char_def DQ_def BSL_def)
qed

lemma json_encode_plain_string:
  assumes "\<forall>c \<in> set s. c \<noteq> CHR 0x22 \<and> c \<noteq> CHR 0x5C \<and> 32 \<le> (of_char c :: nat)"
  shows "json_encode lvl (PStr s) = [CHR 0x22] @ s @ [CHR 0x22]"
proof -
  have "concat (map json_escape_char s) = s"
    using assms by (induction s) (simp_all add: json_escape_char_plain)
  then show ?thesis by (simp add: json_string_def DQ_def)
qed

lemma json_encode_string_append:
  "json_encode lvl (PStr (s @ t)) = butlast (json_encode lvl (PStr s)) @ tl (json_encode lvl (PStr t))"
  by (simp add: json_string_def butlast_append)

lemma json_encode_control:
  assumes "(of_char c :: nat) < 32"
    and "c \<noteq> CHR 0x0A" and "c \<noteq> CHR 0x0D" and "c \<noteq> CHR 0x09" and "c \<noteq> CHR 0x08" and "c \<noteq> CHR 0x0C"
  shows "json_encode lvl (PStr [c]) =
     [CHR 0x22, CHR 0x5C, CHR ''u'', CHR ''0'', CHR ''0'',
      ''0123456789abcdef'' ! (of_char c div 16), ''0123456789abcdef'' ! (of_char c mod 16), CHR 0x22]"
proof -
  have "c \<noteq> CHR 0x22" "c \<noteq> CHR 0x5C" using assms(1) by auto
  then show ?thesis
    using assms by (simp add: json_string_def json_escape_char_def hex2_def digit_char_def DQ_def BSL_def)
qed

lemma json_encode_specials:
  "json_encode lvl (PStr [CHR 0x22]) = [CHR 0x22, CHR 0x5C, CHR 0x22, CHR 0x22]"
  "json_encode lvl (PStr [CHR 0x5C]) = [CHR 0x22, CHR 0x5C, CHR 0x5C, CHR 0x22]"
  "json_encode lvl (PStr [CHR 0x0A]) = [CHR 0x22, CHR 0x5C, CHR ''n'', CHR 0x22]"
  "json_encode lvl (PStr [CHR 0x0D]) = [CHR 0x22, CHR 0x5C, CHR ''r'', CHR 0x22]"
  "json_encode lvl (PStr [CHR 0x09]) = [CHR 0x22, CHR 0x5C, CHR ''t'', CHR 0x22]"
  "json_encode lvl (PStr [CHR 0x08]) = [CHR 0x22, CHR 0x5C, CHR ''b'', CHR 0x22]"
  "json_encode lvl (PStr [CHR 0x0C]) = [CHR 0x22, CHR 0x5C, CHR ''f'', CHR 0x22]"
  by (simp_all add: json_string_def json_escape_char_def DQ_def BSL_def)

lemma newline_indent_explicit: "newline_indent n = ''\<newline>'' @ replicate (2 * n) (CHR '' '')"
  by (simp add: newline_indent_def NL_def)

lemma json_encode_list1:
  "json_encode lvl (PList [x]) =
     ''['' @ ''\<newline>'' @ replicate (2 * lvl + 2) (CHR '' '') @ json_encode (Suc lvl) x
       @ ''\<newline>'' @ replicate (2 * lvl) (CHR '' '') @ '']''"
  by (simp add: newline_indent_explicit)

lemma json_encode_list2:
  "json_encode lvl (PList (x # y # zs)) =
     ''['' @ ''\<newline>'' @ replicate (2 * lvl + 2) (CHR '' '') @ json_encode (Suc lvl) x
       @ '','' @ tl (json_encode lvl (PList (y # zs)))"
  by (simp add: newline_indent_explicit)

lemma json_encode_dict1:
  "json_encode lvl (PDict [(k, v)]) =
     ''{'' @ ''\<newline>'' @ replicate (2 * lvl + 2) (CHR '' '')
       @ json_encode lvl (PStr k) @ '': '' @ json_encode (Suc lvl) v
       @ ''\<newline>'' @ replicate (2 * lvl) (CHR '' '') @ ''}''"
  by (simp add: newline_indent_explicit)

lemma json_encode_dict2:
  "json_encode lvl (PDict ((k, v) # kv # kvs)) =
     ''{'' @ ''\<newline>'' @ replicate (2 * lvl + 2) (CHR '' '')
       @ json_encode lvl (PStr k) @ '': '' @ json_encode (Suc lvl) v
       @ '','' @ tl (json_encode lvl (PDict (kv # kvs)))"
  by (simp add: newline_indent_explicit)

section \<open>Replies and the fault boundary\<close>

lemma reply_template_sent:
  "config_get cfg ''messages'' k = Inr t \<Longrightarrow> accepts t \<Longrightarrow>
     reply_template cfg accepts k st = (None, st\<lparr>replies := replies st @ [t]\<rparr>)"
  by (simp add: reply_template_def reply_def)

lemma reply_template_queried: "queried (snd (reply_template cfg accepts k st)) = queried st"
  by (simp add: reply_template_def reply_def split: sum.splits)

lemma except_loop_queried: "queried (except_loop cfg accepts es st) = queried st"
  by (induction es arbitrary: st)
     (auto simp: reply_template_def reply_def split: sum.splits prod.splits option.splits if_splits)

text \<open>With the \<open>general_error\<close> template at hand, the handler answers every member.\<close>

lemma except_loop_all:
  assumes "config_get cfg ''messages'' ''general_error'' = Inr g" and "accepts g"
  shows "except_loop cfg accepts es st =
     st\<lparr>replies := replies st @ replicate (length es) g, errors_logged := errors_logged st @ es\<rparr>"
proof (induction es arbitrary: st)
  case Nil
  then show ?case by simp
next
  case (Cons e es)
  have "reply_template cfg accepts ''general_error'' (st\<lparr>errors_logged := errors_logged st @ [e]\<rparr>) =
      (None, st\<lparr>errors_logged := errors_logged st @ [e], replies := replies st @ [g]\<rparr>)"
    using assms by (simp add: reply_template_sent)
  then show ?case
    by (simp add: Cons.IH replicate_app_Cons_same)
qed

lemma e_group_exceptions_single: "\<forall>es. e \<noteq> ExceptionGroup es \<Longrightarrow> e_group_exceptions e = [e]"
  by (cases e) simp_all

lemma on_message_mention:
  "author m \<noteq> user b \<Longrightarrow> user b \<in> set (mentions m) \<Longrightarrow>
     on_message b accepts query m = handle_mention b accepts query m"
  by (simp add: on_message_def)

text \<open>What the handling comes to when the flattening of the stream raises.\<close>

lemma handle_mention_raised:
  assumes "extract_prompt b m \<noteq> []" and "flatten (query (extract_prompt b m)) = Inl e"
    and "config_get (config b) ''messages'' ''general_error'' = Inr g" and "accepts g"
  shows "handle_mention b accepts query m =
     \<lparr>replies = replicate (length (e_group_exceptions e)) g, errors_logged = e_group_exceptions e,
      queried = [extract_prompt b m], escaped = None\<rparr>"
proof -
  have loop: "\<And>es st. except_loop (config b) accepts es st =
      st\<lparr>replies := replies st @ replicate (length es) g, errors_logged := errors_logged st @ es\<rparr>"
    using assms(3,4) by (rule except_loop_all)
  show ?thesis
    using assms(1,2) by (simp add: handle_mention_def try_body_def Let_def loop idle_def)
qed

text \<open>With its templates at hand and a platform that takes everything, the policy sends one reply.\<close>

lemma reply_policy_sent:
  assumes "config_get cfg ''messages'' ''long_response_warning'' = Inr w"
    and "config_get cfg ''messages'' ''empty_response'' = Inr r"
    and "\<forall>text. accepts text"
  shows "\<exists>sent. reply_policy cfg accepts fragments st = (None, st\<lparr>replies := replies st @ [sent]\<rparr>)"
proof -
  have "accepts w" "accepts r" using assms(3) by simp_all
  then show ?thesis
    using assms by (auto simp: reply_policy_def Let_def reply_template_sent reply_def)
qed

text \<open>Joining the characters of a text again nearly doubles its length.\<close>

lemma str_join_chars_length: "length (str_join NL (chars_of s)) = 2 * length s - 1"
proof (induction s rule: induct_list012)
  case 1
  then show ?case by (simp add: chars_of_def)
next
  case (2 c)
  then show ?case by (simp add: chars_of_def)
next
  case (3 c d s)
  then show ?case by (simp add: chars_of_def NL_def)
qed

text \<open>The reply the policy sends, by the length of the joined text.\<close>

lemma reply_policy_on_length:
  assumes "config_get cfg ''messages'' ''long_response_warning'' = Inr w"
    and "config_get cfg ''messages'' ''empty_response'' = Inr r"
    and "\<forall>text. accepts text"
  shows "reply_policy cfg accepts fragments st =
     (None, st\<lparr>replies := replies st @
        [if length (str_join NL fragments) = 0 then r
         else if 4000 < length (str_join NL fragments) then w
         else str_join NL (chars_of (str_join NL fragments))]\<rparr>)"
proof -
  have "accepts w" "accepts r" using assms(3) by simp_all
  then show ?thesis
    using assms by (auto simp: reply_policy_def Let_def reply_template_sent reply_def)
qed

lemma reply_template_errors_logged:
  "errors_logged (snd (reply_template cfg accepts k st)) = errors_logged st"
  by (simp add: reply_template_def reply_def split: sum.splits)

lemma config_get_Inl: "config_get cfg sec key = Inl e \<Longrightarrow> e = KeyError sec \<or> e = KeyError key"
  by (auto simp: config_get_def split: option.splits)

text \<open>A reply is sent, or a single exception is raised and nothing is sent.\<close>

lemma reply_template_cases:
  "(\<exists>t. reply_template cfg accepts k st = (None, st\<lparr>replies := replies st @ [t]\<rparr>)) \<or>
   (\<exists>e. reply_template cfg accepts k st = (Some e, st) \<and> e_group_exceptions e = [e])"
  by (auto simp: reply_template_def reply_def config_get_def split: sum.splits option.splits)

lemma reply_policy_cases:
  "(\<exists>t. reply_policy cfg accepts fragments st = (None, st\<lparr>replies := replies st @ [t]\<rparr>)) \<or>
   (\<exists>e. reply_policy cfg accepts fragments st = (Some e, st) \<and> e_group_exceptions e = [e])"
  using reply_template_cases [of cfg accepts "''long_response_warning''" st]
    reply_template_cases [of cfg accepts "''empty_response''" st]
  by (auto simp: reply_policy_def Let_def reply_def)

lemma handle_mention_body_done:
  assumes "try_body b accepts query m = (None, st)"
  shows "handle_mention b accepts query m = st"
  using assms by (simp add: handle_mention_def)

lemma handle_mention_body_raised:
  assumes "try_body b accepts query m = (Some e, st)"
    and "config_get (config b) ''messages'' ''general_error'' = Inr g" and "accepts g"
  shows "handle_mention b accepts query m =
     st\<lparr>replies := replies st @ replicate (length (e_group_exceptions e)) g,
        errors_logged := errors_logged st @ e_group_exceptions e\<rparr>"
proof -
  have loop: "\<And>es st. except_loop (config b) accepts es st =
      st\<lparr>replies := replies st @ replicate (length es) g, errors_logged := errors_logged st @ es\<rparr>"
    using assms(2,3) by (rule except_loop_all)
  show ?thesis using assms(1) by (simp add: handle_mention_def loop)
qed

lemma config_get_Inl_single: "config_get cfg sec key = Inl e \<Longrightarrow> e_group_exceptions e = [e]"
  by (auto dest: config_get_Inl)

text \<open>A single exception of the body is logged, whatever becomes of the reply to it.\<close>

lemma handle_mention_logs:
  assumes "try_body b accepts query m = (Some e, st)" and "e_group_exceptions e = [e]"
    and "errors_logged st = []"
  shows "errors_logged (handle_mention b accepts query m) = [e]"
proof -
  obtain r st' where rt:
    "reply_template (config b) accepts ''general_error'' (st\<lparr>errors_logged := errors_logged st @ [e]\<rparr>) = (r, st')"
    by (cases "reply_template (config b) accepts ''general_error'' (st\<lparr>errors_logged := errors_logged st @ [e]\<rparr>)")
  have "errors_logged st' = [e]"
    using reply_template_errors_logged [of "config b" accepts "''general_error''"
        "st\<lparr>errors_logged := errors_logged st @ [e]\<rparr>"] rt assms(3)
    by simp
  moreover have "handle_mention b accepts query m = except_loop (config b) accepts [e] st"
    using assms(1,2) by (simp add: handle_mention_def)
  ultimately show ?thesis using rt by (cases r) simp_all
qed

text \<open>Without the \<open>general_error\<close> template the first error handled ends the handler.\<close>

lemma handle_mention_escapes:
  assumes "try_body b accepts query m = (Some x, st)" and "x \<noteq> ExceptionGroup []"
    and "config_get (config b) ''messages'' ''general_error'' = Inl e"
  shows "replies (handle_mention b accepts query m) = replies st \<and>
     escaped (handle_mention b accepts query m) = Some e"
proof -
  obtain y ys where "e_group_exceptions x = y # ys"
    using assms(2) by (cases x; cases "e_group_exceptions x") auto
  then show ?thesis
    using assms(1,3) by (simp add: handle_mention_def reply_template_def)
qed

lemma try_body_empty_prompt:
  "extract_prompt b m = [] \<Longrightarrow>
     try_body b accepts query m = reply_template (config b) accepts ''empty_message'' idle"
  by (simp add: try_body_def)

lemma try_body_flattened:
  "extract_prompt b m \<noteq> [] \<Longrightarrow> flatten (query (extract_prompt b m)) = Inr fragments \<Longrightarrow>
     try_body b accepts query m =
       reply_policy (config b) accepts fragments (idle\<lparr>queried := [extract_prompt b m]\<rparr>)"
  by (simp add: try_body_def Let_def)

lemma try_body_raised:
  "extract_prompt b m \<noteq> [] \<Longrightarrow> flatten (query (extract_prompt b m)) = Inl x \<Longrightarrow>
     try_body b accepts query m = (Some x, idle\<lparr>queried := [extract_prompt b m]\<rparr>)"
  by (simp add: try_body_def Let_def)

lemma missing_empty_message:
  assumes "config_get (config b) ''messages'' ''empty_message'' = Inl e" and "extract_prompt b m = []"
  shows "errors_logged (handle_mention b accepts query m) = [e]"
proof -
  have "try_body b accepts query m = (Some e, idle)"
    using assms by (simp add: try_body_empty_prompt reply_template_def)
  from handle_mention_logs [OF this config_get_Inl_single [OF assms(1)]]
  show ?thesis by (simp add: idle_def)
qed

lemma missing_long_response_warning:
  assumes "config_get (config b) ''messages'' ''long_response_warning'' = Inl e"
    and "extract_prompt b m \<noteq> []" and "flatten (query (extract_prompt b m)) = Inr fragments"
    and "4000 < length (str_join NL fragments)"
  shows "errors_logged (handle_mention b accepts query m) = [e]"
proof -
  have "str_join NL fragments \<noteq> []" using assms(4) by auto
  then have "try_body b accepts query m = (Some e, idle\<lparr>queried := [extract_prompt b m]\<rparr>)"
    using assms by (simp add: try_body_flattened reply_policy_def reply_template_def)
  from handle_mention_logs [OF this config_get_Inl_single [OF assms(1)]]
  show ?thesis by (simp add: idle_def)
qed

lemma missing_empty_response:
  assumes "config_get (config b) ''messages'' ''empty_response'' = Inl e"
    and "extract_prompt b m \<noteq> []" and "flatten (query (extract_prompt b m)) = Inr fragments"
    and "str_join NL fragments = []"
  shows "errors_logged (handle_mention b accepts query m) = [e]"
proof -
  have "try_body b accepts query m = (Some e, idle\<lparr>queried := [extract_prompt b m]\<rparr>)"
    using assms by (simp add: try_body_flattened reply_policy_def reply_template_def)
  from handle_mention_logs [OF this config_get_Inl_single [OF assms(1)]]
  show ?thesis by (simp add: idle_def)
qed

text \<open>When the body raises, it has sent nothing.\<close>

lemma try_body_raised_no_reply:
  assumes "try_body b accepts query m = (Some x, st)"
  shows "replies st = []"
proof (cases "extract_prompt b m = []")
  case True
  with assms have "reply_template (config b) accepts ''empty_message'' idle = (Some x, st)"
    by (simp add: try_body_empty_prompt)
  with reply_template_cases [of "config b" accepts "''empty_message''" idle]
  show ?thesis by (auto simp: idle_def)
next
  case False
  show ?thesis
  proof (cases "flatten (query (extract_prompt b m))")
    case (Inl e)
    from try_body_raised [of b m query e accepts, OF False Inl] assms
    show ?thesis by (simp add: idle_def)
  next
    case (Inr fragments)
    from try_body_flattened [of b m query fragments accepts, OF False Inr] assms
    have "reply_policy (config b) accepts fragments (idle\<lparr>queried := [extract_prompt b m]\<rparr>) = (Some x, st)"
      by simp
    with reply_policy_cases [of "config b" accepts fragments "idle\<lparr>queried := [extract_prompt b m]\<rparr>"]
    show ?thesis by (auto simp: idle_def)
  qed
qed

lemma missing_general_error:
  assumes "config_get (config b) ''messages'' ''general_error'' = Inl e"
    and "fst (try_body b accepts query m) = Some x" and "x \<noteq> ExceptionGroup []"
  shows "replies (handle_mention b accepts query m) = [] \<and>
     escaped (handle_mention b accepts query m) = Some e"
proof -
  obtain st where body: "try_body b accepts query m = (Some x, st)"
    using assms(2) by (cases "try_body b accepts query m") simp
  from handle_mention_escapes [OF body assms(3,1)] try_body_raised_no_reply [OF body]
  show ?thesis by simp
qed

lemma missing_messages_section:
  assumes "map_of (config b) ''messages'' = None" and "extract_prompt b m = []"
  shows "handle_mention b accepts query m =
     idle\<lparr>errors_logged := [KeyError ''messages''], escaped := Some (KeyError ''messages'')\<rparr>"
proof -
  have "\<And>k st. reply_template (config b) accepts k st = (Some (KeyError ''messages''), st)"
    using assms(1) by (simp add: reply_template_def config_get_def)
  then show ?thesis
    using assms(2) by (simp add: handle_mention_def try_body_def idle_def)
qed

section \<open>What startup checks\<close>

lemma config_get_Inr_nonempty: "config_get cfg sec key = Inr v \<Longrightarrow> cfg \<noteq> []"
  by (auto simp: config_get_def)

lemma main_Started:
  "main logging (Some cfg) = Started cfg' tok \<longleftrightarrow>
     cfg' = cfg \<and> cfg \<noteq> [] \<and> setup_logging logging cfg = None \<and>
     config_get cfg ''discord'' ''bot_token'' = Inr tok \<and>
     tok \<noteq> [] \<and> tok \<noteq> ''your_discord_bot_token_here'' \<and>
     (\<exists>p. config_get cfg ''discord'' ''prefix'' = Inr p)"
  by (auto simp: main_def split: option.splits sum.splits)

lemma main_ignores_messages:
  assumes "\<forall>sec. sec \<noteq> ''messages'' \<longrightarrow> map_of cfg' sec = map_of cfg sec"
    and "main logging (Some cfg) = Started cfg tok"
  shows "main logging (Some cfg') = Started cfg' tok"
proof -
  have same: "\<And>key. config_get cfg' ''logging'' key = config_get cfg ''logging'' key"
    "\<And>key. config_get cfg' ''discord'' key = config_get cfg ''discord'' key"
    using assms(1) by (simp_all add: config_get_def)
  have log: "setup_logging logging cfg' = setup_logging logging cfg"
    unfolding setup_logging_def same by (rule refl)
  from assms(2) have st: "setup_logging logging cfg = None"
    "config_get cfg ''discord'' ''bot_token'' = Inr tok"
    "tok \<noteq> []" "tok \<noteq> ''your_discord_bot_token_here''"
    "\<exists>p. config_get cfg ''discord'' ''prefix'' = Inr p"
    by (simp_all add: main_Started)
  have "cfg' \<noteq> []"
    using st(2) same(2) config_get_Inr_nonempty [of cfg' "''discord''" "''bot_token''" tok] by simp
  then show ?thesis
    using st same log by (simp add: main_Started)
qed

section \<open>The claims\<close>

text \<open>
  C1. The reply policy is to send the joined text exactly when its length is between 1 and
  4000, and the comment of line 118 says that the response is sent. The code joins twice:
  \<open>responses\<close> already is the joined text when line 131 joins it again, character by
  character. For the single fragment \<open>hi\<close> the joined text is \<open>hi\<close> and the reply
  sent is \<open>h\<close>, newline, \<open>i\<close>.
\<close>

theorem verbatim_reply_is_joined_twice:
  "str_join NL [''hi''] = ''hi'' \<and>
   handle_mention example_bot accept_all short_answer example_mention
     = \<lparr>replies = [''h\<newline>i''], errors_logged = [], queried = [''hi''], escaped = None\<rparr>"
  by code_simp

text \<open>
  C2, as stated, fails: when a group of two exceptions reaches the fault boundary, both are
  logged and two \<open>general_error\<close> replies are sent.
\<close>

theorem two_grouped_errors_two_replies:
  "replies (handle_mention example_bot accept_all two_errors example_mention)
      = [''An error occurred.'', ''An error occurred.''] \<and>
   length (replies (handle_mention example_bot accept_all two_errors example_mention)) \<noteq> 1"
  by code_simp

text \<open>
  C2, amended. When an exception group reaches the fault boundary, every member of the
  group is logged, in order, and one \<open>general_error\<close> reply is sent for every member: as
  many replies as the group has members.
\<close>

theorem one_reply_per_grouped_error:
  assumes "flatten (query (extract_prompt b m)) = Inl (ExceptionGroup es)"
    and "extract_prompt b m \<noteq> []"
    and "config_get (config b) ''messages'' ''general_error'' = Inr g" and "accepts g"
  shows "errors_logged (handle_mention b accepts query m) = es \<and>
     replies (handle_mention b accepts query m) = replicate (length es) g"
  by (simp add: handle_mention_raised [where b = b and m = m and query = query and accepts = accepts,
        OF assms(2) assms(1) assms(3,4)])

text \<open>C2, amended, on the group of two errors.\<close>

theorem one_reply_per_grouped_error_witness:
  "errors_logged (handle_mention example_bot accept_all two_errors example_mention)
      = [OtherError ''first'', OtherError ''second''] \<and>
   replies (handle_mention example_bot accept_all two_errors example_mention)
      = replicate (length [OtherError ''first'', OtherError ''second'']) ''An error occurred.''"
proof -
  have 1: "flatten (two_errors (extract_prompt example_bot example_mention))
      = Inl (ExceptionGroup [OtherError ''first'', OtherError ''second''])"
    by code_simp
  have 2: "extract_prompt example_bot example_mention \<noteq> []" by code_simp
  have 3: "config_get (config example_bot) ''messages'' ''general_error'' = Inr ''An error occurred.''"
    by code_simp
  have 4: "accept_all ''An error occurred.''" by (simp add: accept_all_def)
  show ?thesis
    by (rule one_reply_per_grouped_error [where b = example_bot and m = example_mention
          and query = two_errors and accepts = accept_all, OF 1 2 3 4])
qed

text \<open>
  C3, as stated, fails: a mention whose query fails with a group of three exceptions is
  answered three times.
\<close>

theorem three_grouped_errors_three_replies:
  "replies (on_message example_bot accept_all three_errors example_mention)
      = [''An error occurred.'', ''An error occurred.'', ''An error occurred.''] \<and>
   length (replies (on_message example_bot accept_all three_errors example_mention)) \<noteq> 1"
  by code_simp

text \<open>
  C3, amended. For a message that mentions the bot and is not the bot's own, with the
  \<open>general_error\<close> template configured and taken by the platform: exactly one reply is
  sent whenever no exception group reaches the fault boundary, that is when the prompt is
  empty, when the query succeeds, whatever the length of its text, and when a single
  exception is caught, be it an error of the backend, a missing key, a missing template or
  a reply that the platform refuses; when an exception group reaches the fault boundary,
  one reply is sent for every member of the group. No exception leaves the handler.
\<close>

theorem replies_per_mention:
  assumes "author m \<noteq> user b" and "user b \<in> set (mentions m)"
    and "config_get (config b) ''messages'' ''general_error'' = Inr g" and "accepts g"
  shows "length (replies (on_message b accepts query m)) =
       (if extract_prompt b m = [] then 1
        else case flatten (query (extract_prompt b m)) of
               Inl (ExceptionGroup es) \<Rightarrow> length es
             | _ \<Rightarrow> 1) \<and>
     escaped (on_message b accepts query m) = None"
proof -
  let ?h = "handle_mention b accepts query m"
  let ?p = "extract_prompt b m"
  have one: "length (replies ?h) = 1 \<and> escaped ?h = None"
    if "(\<exists>t. try_body b accepts query m = (None, st\<lparr>replies := replies st @ [t]\<rparr>)) \<or>
        (\<exists>e. try_body b accepts query m = (Some e, st) \<and> e_group_exceptions e = [e])"
      and "replies st = []" and "escaped st = None" for st
    using that(1)
  proof (elim disjE exE conjE)
    fix t assume "try_body b accepts query m = (None, st\<lparr>replies := replies st @ [t]\<rparr>)"
    from handle_mention_body_done [OF this] show ?thesis using that(2,3) by simp
  next
    fix e assume "try_body b accepts query m = (Some e, st)" and "e_group_exceptions e = [e]"
    from handle_mention_body_raised [OF this(1) assms(3,4)] this(2)
    show ?thesis using that(2,3) by simp
  qed
  have "length (replies ?h) =
       (if ?p = [] then 1
        else case flatten (query ?p) of Inl (ExceptionGroup es) \<Rightarrow> length es | _ \<Rightarrow> 1) \<and>
     escaped ?h = None"
  proof (cases "?p = []")
    case True
    have "try_body b accepts query m = reply_template (config b) accepts ''empty_message'' idle"
      using True by (simp add: try_body_def)
    with reply_template_cases [of "config b" accepts "''empty_message''" idle]
    have "length (replies ?h) = 1 \<and> escaped ?h = None"
      by (intro one [of idle]) (simp_all add: idle_def)
    with True show ?thesis by simp
  next
    case False
    let ?st = "idle\<lparr>queried := [?p]\<rparr>"
    show ?thesis
    proof (cases "flatten (query ?p)")
      case (Inl e)
      have "try_body b accepts query m = (Some e, ?st)"
        using False Inl by (simp add: try_body_def Let_def)
      from handle_mention_body_raised [OF this assms(3,4)]
      have "length (replies ?h) = length (e_group_exceptions e) \<and> escaped ?h = None"
        by (simp add: idle_def)
      then show ?thesis using False Inl by (cases e) simp_all
    next
      case (Inr fragments)
      have "try_body b accepts query m = reply_policy (config b) accepts fragments ?st"
        using False Inr by (simp add: try_body_def Let_def)
      with reply_policy_cases [of "config b" accepts fragments ?st]
      have "length (replies ?h) = 1 \<and> escaped ?h = None"
        by (intro one [of ?st]) (simp_all add: idle_def)
      then show ?thesis using False Inr by simp
    qed
  qed
  then show ?thesis using assms(1,2) by (simp add: on_message_mention)
qed

text \<open>
  C3, amended, on a mention that is answered, on one whose query fails with a group of two,
  on an empty prompt whose template is missing, and on an answer that the platform refuses.
\<close>

theorem replies_per_mention_witness:
  "length (replies (on_message example_bot accept_all one_answer example_mention)) = 1 \<and>
   escaped (on_message example_bot accept_all one_answer example_mention) = None \<and>
   length (replies (on_message example_bot accept_all two_errors example_mention)) = 2 \<and>
   length (replies (on_message \<lparr>config = config_general_error_only, user = 42\<rparr> accept_all one_answer
      empty_mention)) = 1 \<and>
   length (replies (on_message example_bot only_apology one_answer example_mention)) = 1"
proof -
  have a: "author example_mention \<noteq> user example_bot"
    "user example_bot \<in> set (mentions example_mention)"
    "author empty_mention \<noteq> user \<lparr>config = config_general_error_only, user = 42\<rparr>"
    "user \<lparr>config = config_general_error_only, user = 42\<rparr> \<in> set (mentions empty_mention)"
    by code_simp+
  have g: "config_get (config example_bot) ''messages'' ''general_error'' = Inr ''An error occurred.''"
    "config_get (config \<lparr>config = config_general_error_only, user = 42\<rparr>) ''messages'' ''general_error''
       = Inr ''An error occurred.''"
    by code_simp+
  have acc: "accept_all ''An error occurred.''" "only_apology ''An error occurred.''"
    by (simp_all add: accept_all_def only_apology_def)
  have p: "extract_prompt example_bot example_mention \<noteq> []"
    "extract_prompt \<lparr>config = config_general_error_only, user = 42\<rparr> empty_mention = []"
    by code_simp+
  have f: "flatten (one_answer (extract_prompt example_bot example_mention)) = Inr [''hello'']"
    "flatten (two_errors (extract_prompt example_bot example_mention))
       = Inl (ExceptionGroup [OtherError ''first'', OtherError ''second''])"
    by code_simp+
  from replies_per_mention [where b = example_bot and m = example_mention and query = one_answer
      and accepts = accept_all, OF a(1,2) g(1) acc(1)]
  have 1: "length (replies (on_message example_bot accept_all one_answer example_mention)) = 1 \<and>
     escaped (on_message example_bot accept_all one_answer example_mention) = None"
    by (simp only: p f if_False sum.case)
  from replies_per_mention [where b = example_bot and m = example_mention and query = two_errors
      and accepts = accept_all, OF a(1,2) g(1) acc(1)]
  have 2: "length (replies (on_message example_bot accept_all two_errors example_mention)) = 2"
    by (simp only: p f if_False sum.case py_exc.case list.size)
  from replies_per_mention [where b = "\<lparr>config = config_general_error_only, user = 42\<rparr>"
      and m = empty_mention and query = one_answer and accepts = accept_all, OF a(3,4) g(2) acc(1)]
  have 3: "length (replies (on_message \<lparr>config = config_general_error_only, user = 42\<rparr> accept_all
      one_answer empty_mention)) = 1"
    by (simp only: p simp_thms if_True)
  from replies_per_mention [where b = example_bot and m = example_mention and query = one_answer
      and accepts = only_apology, OF a(1,2) g(1) acc(2)]
  have 4: "length (replies (on_message example_bot only_apology one_answer example_mention)) = 1"
    by (simp only: p f if_False sum.case)
  from 1 2 3 4 show ?thesis by blast
qed

text \<open>
  C4. A \<open>Bash\<close> block is rendered as the bold name followed by the fenced line
  \<open>$ command # description\<close>. When the input has no \<open>description\<close>, \<open>get\<close> gives
  \<open>None\<close> and the f-string writes it out: the fragment ends in \<open># None\<close>, not in \<open># \<close>
  followed by nothing.
\<close>

theorem bash_without_description_renders_None:
  "flatten_block (ToolUseBlock ''toolu_1'' ''Bash'' [(''command'', PStr ''ls'')]) []
     = Inr [''**Bash**'', ''```\<newline>$ ls # None\<newline>```'']"
  by (simp add: dict_getitem_def dict_get_def bold_def fenced_def NL_def)

text \<open>
  C5, as stated, fails: with no \<open>messages\<close> section at all the bot is started, and the
  missing template is met only when a mention is handled, as a \<open>KeyError\<close> that leaves
  the handler.
\<close>

theorem startup_without_templates:
  "main example_logging (Some config_without_templates) = Started config_without_templates ''token'' \<and>
   handle_mention \<lparr>config = config_without_templates, user = 42\<rparr> accept_all one_answer bare_mention
     = \<lparr>replies = [], errors_logged = [KeyError ''messages''], queried = [],
        escaped = Some (KeyError ''messages'')\<rparr>"
  by code_simp

text \<open>
  C5, amended. Startup checks no template: \<open>main\<close> never reads the \<open>messages\<close>
  section, so a configuration that starts the bot starts it whatever its \<open>messages\<close>
  section is, also without one. A missing template is first met while a message is
  handled, at the lookup that needs it, as a \<open>KeyError\<close> of the section or of the key:
  for \<open>empty_message\<close> on an empty prompt, for \<open>long_response_warning\<close> on a text of
  more than 4000 characters and for \<open>empty_response\<close> on an empty text the error is caught
  and logged by the fault boundary; for \<open>general_error\<close> the error is raised in the fault
  boundary itself, whatever the exception of the body that it was handling: no reply is
  sent and the \<open>KeyError\<close> leaves the handler.
\<close>

theorem startup_ignores_templates:
  assumes "\<forall>sec. sec \<noteq> ''messages'' \<longrightarrow> map_of (config b) sec = map_of cfg sec"
    and "main logging (Some cfg) = Started cfg tok"
  shows "main logging (Some (config b)) = Started (config b) tok \<and>
     (\<forall>e. config_get (config b) ''messages'' ''empty_message'' = Inl e \<and> extract_prompt b m = [] \<longrightarrow>
        (e = KeyError ''messages'' \<or> e = KeyError ''empty_message'') \<and>
        errors_logged (handle_mention b accepts query m) = [e]) \<and>
     (\<forall>e fragments. config_get (config b) ''messages'' ''long_response_warning'' = Inl e \<and>
          extract_prompt b m \<noteq> [] \<and> flatten (query (extract_prompt b m)) = Inr fragments \<and>
          4000 < length (str_join NL fragments) \<longrightarrow>
        (e = KeyError ''messages'' \<or> e = KeyError ''long_response_warning'') \<and>
        errors_logged (handle_mention b accepts query m) = [e]) \<and>
     (\<forall>e fragments. config_get (config b) ''messages'' ''empty_response'' = Inl e \<and>
          extract_prompt b m \<noteq> [] \<and> flatten (query (extract_prompt b m)) = Inr fragments \<and>
          str_join NL fragments = [] \<longrightarrow>
        (e = KeyError ''messages'' \<or> e = KeyError ''empty_response'') \<and>
        errors_logged (handle_mention b accepts query m) = [e]) \<and>
     (\<forall>e x. config_get (config b) ''messages'' ''general_error'' = Inl e \<and>
          fst (try_body b accepts query m) = Some x \<and> x \<noteq> ExceptionGroup [] \<longrightarrow>
        (e = KeyError ''messages'' \<or> e = KeyError ''general_error'') \<and>
        replies (handle_mention b accepts query m) = [] \<and>
        escaped (handle_mention b accepts query m) = Some e) \<and>
     (map_of (config b) ''messages'' = None \<and> extract_prompt b m = [] \<longrightarrow>
        handle_mention b accepts query m =
          idle\<lparr>errors_logged := [KeyError ''messages''], escaped := Some (KeyError ''messages'')\<rparr>)"
proof (intro conjI allI impI)
  show "main logging (Some (config b)) = Started (config b) tok"
    using assms by (rule main_ignores_messages)
next
  fix e
  assume "config_get (config b) ''messages'' ''empty_message'' = Inl e \<and> extract_prompt b m = []"
  then show "e = KeyError ''messages'' \<or> e = KeyError ''empty_message''"
    and "errors_logged (handle_mention b accepts query m) = [e]"
    by (auto dest: config_get_Inl simp: missing_empty_message)
next
  fix e fragments
  assume "config_get (config b) ''messages'' ''long_response_warning'' = Inl e \<and>
          extract_prompt b m \<noteq> [] \<and> flatten (query (extract_prompt b m)) = Inr fragments \<and>
          4000 < length (str_join NL fragments)"
  then show "e = KeyError ''messages'' \<or> e = KeyError ''long_response_warning''"
    and "errors_logged (handle_mention b accepts query m) = [e]"
    by (auto dest: config_get_Inl simp: missing_long_response_warning)
next
  fix e fragments
  assume "config_get (config b) ''messages'' ''empty_response'' = Inl e \<and>
          extract_prompt b m \<noteq> [] \<and> flatten (query (extract_prompt b m)) = Inr fragments \<and>
          str_join NL fragments = []"
  then show "e = KeyError ''messages'' \<or> e = KeyError ''empty_response''"
    and "errors_logged (handle_mention b accepts query m) = [e]"
    by (auto dest: config_get_Inl simp: missing_empty_response)
next
  fix e x
  assume *: "config_get (config b) ''messages'' ''general_error'' = Inl e \<and>
          fst (try_body b accepts query m) = Some x \<and> x \<noteq> ExceptionGroup []"
  then show "e = KeyError ''messages'' \<or> e = KeyError ''general_error''"
    by (auto dest: config_get_Inl)
  from * have "replies (handle_mention b accepts query m) = [] \<and>
     escaped (handle_mention b accepts query m) = Some e"
    by (intro missing_general_error [where x = x]) simp_all
  then show "replies (handle_mention b accepts query m) = []"
    and "escaped (handle_mention b accepts query m) = Some e"
    by simp_all
next
  assume "map_of (config b) ''messages'' = None \<and> extract_prompt b m = []"
  then show "handle_mention b accepts query m =
          idle\<lparr>errors_logged := [KeyError ''messages''], escaped := Some (KeyError ''messages'')\<rparr>"
    by (simp add: missing_messages_section)
qed

text \<open>
  C5, amended, on the configurations without a \<open>messages\<close> section, without the
  warning, and with an empty \<open>messages\<close> section.
\<close>

theorem startup_ignores_templates_witness:
  "main example_logging (Some config_without_templates) = Started config_without_templates ''token'' \<and>
   handle_mention \<lparr>config = config_without_templates, user = 42\<rparr> accept_all one_answer empty_mention =
     idle\<lparr>errors_logged := [KeyError ''messages''], escaped := Some (KeyError ''messages'')\<rparr> \<and>
   errors_logged
     (handle_mention \<lparr>config = config_without_warning, user = 42\<rparr> accept_all long_answer example_mention)
     = [KeyError ''long_response_warning''] \<and>
   errors_logged
     (handle_mention \<lparr>config = config_without_templates, user = 42\<rparr> accept_all no_answer example_mention)
     = [KeyError ''messages''] \<and>
   escaped
     (handle_mention \<lparr>config = config_without_templates, user = 42\<rparr> accept_all connection_lost
        example_mention)
     = Some (KeyError ''messages'') \<and>
   escaped
     (handle_mention \<lparr>config = config_empty_messages, user = 42\<rparr> accept_all one_answer
        empty_mention)
     = Some (KeyError ''general_error'')"
proof -
  let ?e = "\<lparr>config = config_empty_messages, user = 42\<rparr>"
  let ?b = "\<lparr>config = config_without_templates, user = 42\<rparr>"
  let ?w = "\<lparr>config = config_without_warning, user = 42\<rparr>"
  have same: "\<forall>sec. sec \<noteq> ''messages'' \<longrightarrow> map_of (config ?b) sec = map_of example_config sec"
    "\<forall>sec. sec \<noteq> ''messages'' \<longrightarrow> map_of (config ?w) sec = map_of example_config sec"
    "\<forall>sec. sec \<noteq> ''messages'' \<longrightarrow> map_of (config ?e) sec = map_of example_config sec"
    by (simp_all add: config_without_templates_def config_without_warning_def
          config_empty_messages_def example_config_def)
  have started: "main example_logging (Some example_config) = Started example_config ''token''"
    by code_simp
  have p: "extract_prompt ?b empty_mention = []" "extract_prompt ?b example_mention \<noteq> []"
    "extract_prompt ?w example_mention \<noteq> []"
    by code_simp+
  have none: "map_of (config ?b) ''messages'' = None" by code_simp
  have k: "config_get (config ?w) ''messages'' ''long_response_warning'' = Inl (KeyError ''long_response_warning'')"
    "config_get (config ?b) ''messages'' ''empty_response'' = Inl (KeyError ''messages'')"
    "config_get (config ?b) ''messages'' ''general_error'' = Inl (KeyError ''messages'')"
    "config_get (config ?e) ''messages'' ''general_error'' = Inl (KeyError ''general_error'')"
    by code_simp+
  have raised: "fst (try_body ?b accept_all connection_lost example_mention) = Some (OtherError ''connection lost'')"
    "fst (try_body ?e accept_all one_answer empty_mention) = Some (KeyError ''empty_message'')"
    by code_simp+
  have f: "flatten (long_answer (extract_prompt ?w example_mention)) = Inr [replicate 4001 (CHR ''x'')]"
    "flatten (no_answer (extract_prompt ?b example_mention)) = Inr []"
    "flatten (connection_lost (extract_prompt ?b example_mention)) = Inl (OtherError ''connection lost'')"
    by (simp_all add: long_answer_def no_answer_def connection_lost_def flatten_def)
  have l: "4000 < length (str_join NL [replicate 4001 (CHR ''x'')])" "str_join NL [] = []"
    "OtherError ''connection lost'' \<noteq> ExceptionGroup []" "KeyError ''empty_message'' \<noteq> ExceptionGroup []"
    by simp_all
  have cfg: "config ?b = config_without_templates" by simp
  from startup_ignores_templates [where b = ?b and cfg = example_config and logging = example_logging
      and tok = "''token''" and m = empty_mention and accepts = accept_all and query = one_answer,
      OF same(1) started]
  have 1: "main example_logging (Some (config ?b)) = Started (config ?b) ''token''"
    and 2: "handle_mention ?b accept_all one_answer empty_mention =
     idle\<lparr>errors_logged := [KeyError ''messages''], escaped := Some (KeyError ''messages'')\<rparr>"
    using p(1) none by blast+
  from startup_ignores_templates [where b = ?w and cfg = example_config and logging = example_logging
      and tok = "''token''" and m = example_mention and accepts = accept_all and query = long_answer,
      OF same(2) started]
  have 3: "errors_logged (handle_mention ?w accept_all long_answer example_mention)
     = [KeyError ''long_response_warning'']"
    using p(3) k(1) f(1) l(1) by blast
  from startup_ignores_templates [where b = ?b and cfg = example_config and logging = example_logging
      and tok = "''token''" and m = example_mention and accepts = accept_all and query = no_answer,
      OF same(1) started]
  have 4: "errors_logged (handle_mention ?b accept_all no_answer example_mention) = [KeyError ''messages'']"
    using p(2) k(2) f(2) l(2) by blast
  from startup_ignores_templates [where b = ?b and cfg = example_config and logging = example_logging
      and tok = "''token''" and m = example_mention and accepts = accept_all and query = connection_lost,
      OF same(1) started]
  have 5: "escaped (handle_mention ?b accept_all connection_lost example_mention) = Some (KeyError ''messages'')"
    using k(3) raised(1) l(3) by blast
  from startup_ignores_templates [where b = ?e and cfg = example_config and logging = example_logging
      and tok = "''token''" and m = empty_mention and accepts = accept_all and query = one_answer,
      OF same(3) started]
  have 6: "escaped (handle_mention ?e accept_all one_answer empty_mention) = Some (KeyError ''general_error'')"
    using k(4) raised(2) l(4) by blast
  from 1 2 3 4 5 6 show ?thesis unfolding cfg by blast
qed


text \<open>
  C7. A tool-use block of any tool but \<open>Bash\<close> adds exactly two fragments: the name in
  bold, and the fenced text that \<open>json.dumps\<close> with \<open>indent=2\<close> and
  \<open>ensure_ascii=False\<close> gives for the input. That text is spelled out for every value: a
  dict or a list opens a line for each entry, in the order of the entries, indented by two
  spaces for every level of nesting, with a comma after each entry but the last, and the
  closing bracket on a line of its own; a key is written as a string and followed by a
  colon and a blank; a string stands between double quotes with every character as it is,
  the non-ASCII ones too, but for the quote, the backslash and the control characters,
  which are escaped; numbers are written in decimal, and the floats as their \<open>repr\<close>.
\<close>

theorem non_bash_tool_use:
  assumes "name \<noteq> ''Bash''"
  shows "flatten_block (ToolUseBlock i name inp) responses
       = Inr (responses @
           [''**'' @ name @ ''**'', ''```\<newline>'' @ json_dumps (PDict inp) @ ''\<newline>```'']) \<and>
     (\<forall>v. json_dumps v = json_encode 0 v) \<and>
     (\<forall>lvl. json_encode lvl (PDict []) = ''{}'') \<and>
     (\<forall>lvl k v. json_encode lvl (PDict [(k, v)]) =
        ''{'' @ ''\<newline>'' @ replicate (2 * lvl + 2) (CHR '' '')
          @ json_encode lvl (PStr k) @ '': '' @ json_encode (Suc lvl) v
          @ ''\<newline>'' @ replicate (2 * lvl) (CHR '' '') @ ''}'') \<and>
     (\<forall>lvl k v kv kvs. json_encode lvl (PDict ((k, v) # kv # kvs)) =
        ''{'' @ ''\<newline>'' @ replicate (2 * lvl + 2) (CHR '' '')
          @ json_encode lvl (PStr k) @ '': '' @ json_encode (Suc lvl) v
          @ '','' @ tl (json_encode lvl (PDict (kv # kvs)))) \<and>
     (\<forall>lvl. json_encode lvl (PList []) = ''[]'') \<and>
     (\<forall>lvl x. json_encode lvl (PList [x]) =
        ''['' @ ''\<newline>'' @ replicate (2 * lvl + 2) (CHR '' '') @ json_encode (Suc lvl) x
          @ ''\<newline>'' @ replicate (2 * lvl) (CHR '' '') @ '']'') \<and>
     (\<forall>lvl x y zs. json_encode lvl (PList (x # y # zs)) =
        ''['' @ ''\<newline>'' @ replicate (2 * lvl + 2) (CHR '' '') @ json_encode (Suc lvl) x
          @ '','' @ tl (json_encode lvl (PList (y # zs)))) \<and>
     (\<forall>lvl s. (\<forall>c \<in> set s. c \<noteq> CHR 0x22 \<and> c \<noteq> CHR 0x5C \<and> 32 \<le> (of_char c :: nat)) \<longrightarrow>
        json_encode lvl (PStr s) = [CHR 0x22] @ s @ [CHR 0x22]) \<and>
     (\<forall>lvl s t. json_encode lvl (PStr (s @ t)) =
        butlast (json_encode lvl (PStr s)) @ tl (json_encode lvl (PStr t))) \<and>
     (\<forall>lvl. json_encode lvl (PStr [CHR 0x22]) = [CHR 0x22, CHR 0x5C, CHR 0x22, CHR 0x22] \<and>
        json_encode lvl (PStr [CHR 0x5C]) = [CHR 0x22, CHR 0x5C, CHR 0x5C, CHR 0x22] \<and>
        json_encode lvl (PStr [CHR 0x0A]) = [CHR 0x22, CHR 0x5C, CHR ''n'', CHR 0x22] \<and>
        json_encode lvl (PStr [CHR 0x0D]) = [CHR 0x22, CHR 0x5C, CHR ''r'', CHR 0x22] \<and>
        json_encode lvl (PStr [CHR 0x09]) = [CHR 0x22, CHR 0x5C, CHR ''t'', CHR 0x22] \<and>
        json_encode lvl (PStr [CHR 0x08]) = [CHR 0x22, CHR 0x5C, CHR ''b'', CHR 0x22] \<and>
        json_encode lvl (PStr [CHR 0x0C]) = [CHR 0x22, CHR 0x5C, CHR ''f'', CHR 0x22]) \<and>
     (\<forall>lvl c. (of_char c :: nat) < 32 \<and> c \<noteq> CHR 0x0A \<and> c \<noteq> CHR 0x0D \<and> c \<noteq> CHR 0x09 \<and>
          c \<noteq> CHR 0x08 \<and> c \<noteq> CHR 0x0C \<longrightarrow>
        json_encode lvl (PStr [c]) =
          [CHR 0x22, CHR 0x5C, CHR ''u'', CHR ''0'', CHR ''0'',
           ''0123456789abcdef'' ! (of_char c div 16), ''0123456789abcdef'' ! (of_char c mod 16),
           CHR 0x22]) \<and>
     (\<forall>lvl i. (0 \<le> i \<and> i < 10 \<longrightarrow> json_encode lvl (PInt i) = [''0123456789'' ! nat i]) \<and>
        (10 \<le> i \<longrightarrow> json_encode lvl (PInt i) =
           json_encode lvl (PInt (i div 10)) @ json_encode lvl (PInt (i mod 10))) \<and>
        (i < 0 \<longrightarrow> json_encode lvl (PInt i) = ''-'' @ json_encode lvl (PInt (- i)))) \<and>
     (\<forall>lvl r. json_encode lvl PNone = ''null'' \<and>
        json_encode lvl (PBool True) = ''true'' \<and>
        json_encode lvl (PBool False) = ''false'' \<and>
        json_encode lvl (PFloat (FloatRepr r)) = r \<and>
        json_encode lvl (PFloat FloatNaN) = ''NaN'' \<and>
        json_encode lvl (PFloat FloatInf) = ''Infinity'' \<and>
        json_encode lvl (PFloat FloatNegInf) = ''-Infinity'')"
proof (intro conjI allI impI)
  show "flatten_block (ToolUseBlock i name inp) responses
       = Inr (responses @
           [''**'' @ name @ ''**'', ''```\<newline>'' @ json_dumps (PDict inp) @ ''\<newline>```''])"
    using assms by (simp add: bold_def fenced_def NL_def)
next
  fix v show "json_dumps v = json_encode 0 v" by (simp add: json_dumps_def)
next
  fix lvl k v
  show "json_encode lvl (PDict [(k, v)]) =
        ''{'' @ ''\<newline>'' @ replicate (2 * lvl + 2) (CHR '' '')
          @ json_encode lvl (PStr k) @ '': '' @ json_encode (Suc lvl) v
          @ ''\<newline>'' @ replicate (2 * lvl) (CHR '' '') @ ''}''"
    by (rule json_encode_dict1)
next
  fix lvl k v kv kvs
  show "json_encode lvl (PDict ((k, v) # kv # kvs)) =
        ''{'' @ ''\<newline>'' @ replicate (2 * lvl + 2) (CHR '' '')
          @ json_encode lvl (PStr k) @ '': '' @ json_encode (Suc lvl) v
          @ '','' @ tl (json_encode lvl (PDict (kv # kvs)))"
    by (rule json_encode_dict2)
next
  fix lvl x
  show "json_encode lvl (PList [x]) =
        ''['' @ ''\<newline>'' @ replicate (2 * lvl + 2) (CHR '' '') @ json_encode (Suc lvl) x
          @ ''\<newline>'' @ replicate (2 * lvl) (CHR '' '') @ '']''"
    by (rule json_encode_list1)
next
  fix lvl x y zs
  show "json_encode lvl (PList (x # y # zs)) =
        ''['' @ ''\<newline>'' @ replicate (2 * lvl + 2) (CHR '' '') @ json_encode (Suc lvl) x
          @ '','' @ tl (json_encode lvl (PList (y # zs)))"
    by (rule json_encode_list2)
next
  fix lvl s
  assume "\<forall>c \<in> set s. c \<noteq> CHR 0x22 \<and> c \<noteq> CHR 0x5C \<and> 32 \<le> (of_char c :: nat)"
  then show "json_encode lvl (PStr s) = [CHR 0x22] @ s @ [CHR 0x22]"
    by (rule json_encode_plain_string)
next
  fix lvl s t
  show "json_encode lvl (PStr (s @ t)) = butlast (json_encode lvl (PStr s)) @ tl (json_encode lvl (PStr t))"
    by (rule json_encode_string_append)
next
  fix lvl c
  assume "(of_char c :: nat) < 32 \<and> c \<noteq> CHR 0x0A \<and> c \<noteq> CHR 0x0D \<and> c \<noteq> CHR 0x09 \<and>
          c \<noteq> CHR 0x08 \<and> c \<noteq> CHR 0x0C"
  then show "json_encode lvl (PStr [c]) =
          [CHR 0x22, CHR 0x5C, CHR ''u'', CHR ''0'', CHR ''0'',
           ''0123456789abcdef'' ! (of_char c div 16), ''0123456789abcdef'' ! (of_char c mod 16),
           CHR 0x22]"
    by (intro json_encode_control) simp_all
next
  fix lvl :: nat and i :: int
  assume "0 \<le> i \<and> i < 10"
  then show "json_encode lvl (PInt i) = [''0123456789'' ! nat i]"
    by (intro json_encode_digit) simp_all
next
  fix lvl :: nat and i :: int
  assume "10 \<le> i"
  then show "json_encode lvl (PInt i) =
           json_encode lvl (PInt (i div 10)) @ json_encode lvl (PInt (i mod 10))"
    by (rule json_encode_digits)
next
  fix lvl :: nat and i :: int
  assume "i < 0"
  then show "json_encode lvl (PInt i) = ''-'' @ json_encode lvl (PInt (- i))"
    by (rule json_encode_negative)
qed (simp_all add: json_string_def json_escape_char_def DQ_def BSL_def)

text \<open>
  C7 on the tool \<open>Write\<close> with the input \<open>{"path": "x.txt"}\<close>, on a string with
  non-ASCII characters, and on a nested input.
\<close>

theorem non_bash_tool_use_witness:
  "flatten_block (ToolUseBlock ''toolu_2'' ''Write'' [(''path'', PStr ''x.txt'')]) []
     = Inr [''**Write**'',
            ''```\<newline>{\<newline>  '' @ [CHR 0x22] @ ''path'' @ [CHR 0x22] @ '': ''
              @ [CHR 0x22] @ ''x.txt'' @ [CHR 0x22] @ ''\<newline>}\<newline>```''] \<and>
   json_dumps (PDict [(''n'', PStr [CHR 0xE9, CHR ''t'', CHR 0xE9])])
     = ''{\<newline>  '' @ [CHR 0x22] @ ''n'' @ [CHR 0x22] @ '': ''
         @ [CHR 0x22, CHR 0xE9, CHR ''t'', CHR 0xE9, CHR 0x22] @ ''\<newline>}'' \<and>
   json_dumps (PDict nested_input)
     = ''{\<newline>  '' @ [CHR 0x22] @ ''a'' @ [CHR 0x22] @ '': [\<newline>    1,\<newline>    {\<newline>      ''
         @ [CHR 0x22] @ ''b'' @ [CHR 0x22] @ '': null\<newline>    }\<newline>  ],\<newline>  ''
         @ [CHR 0x22] @ ''e'' @ [CHR 0x22] @ '': '' @ [CHR 0x22, CHR 0xE9, CHR 0x5C, CHR 0x22, CHR 0x22]
         @ '',\<newline>  '' @ [CHR 0x22] @ ''f'' @ [CHR 0x22] @ '': 1.5,\<newline>  ''
         @ [CHR 0x22] @ ''g'' @ [CHR 0x22] @ '': -120\<newline>}''"
proof -
  have 1: "''Write'' \<noteq> ''Bash''" by simp
  have plain: "\<forall>c \<in> set ''path''. c \<noteq> CHR 0x22 \<and> c \<noteq> CHR 0x5C \<and> 32 \<le> (of_char c :: nat)"
    "\<forall>c \<in> set ''x.txt''. c \<noteq> CHR 0x22 \<and> c \<noteq> CHR 0x5C \<and> 32 \<le> (of_char c :: nat)"
    "\<forall>c \<in> set ''n''. c \<noteq> CHR 0x22 \<and> c \<noteq> CHR 0x5C \<and> 32 \<le> (of_char c :: nat)"
    "\<forall>c \<in> set [CHR 0xE9, CHR ''t'', CHR 0xE9]. c \<noteq> CHR 0x22 \<and> c \<noteq> CHR 0x5C \<and> 32 \<le> (of_char c :: nat)"
    by simp_all
  note inst = non_bash_tool_use [where name = "''Write''" and i = "''toolu_2''"
      and inp = "[(''path'', PStr ''x.txt'')]" and responses = "[]", OF 1]
  note r1 = inst [THEN conjunct2]
  note r3 = r1 [THEN conjunct2, THEN conjunct2]
  note r8 = r3 [THEN conjunct2, THEN conjunct2, THEN conjunct2, THEN conjunct2, THEN conjunct2]
  note block = inst [THEN conjunct1]
  note dumps = r1 [THEN conjunct1, rule_format]
  note dict1 = r3 [THEN conjunct1, rule_format, where lvl = 0]
  note str = r8 [THEN conjunct1, THEN spec, THEN spec, THEN mp, OF plain(1)] r8 [THEN conjunct1, THEN spec, THEN spec, THEN mp, OF plain(2)]
    r8 [THEN conjunct1, THEN spec, THEN spec, THEN mp, OF plain(3)] r8 [THEN conjunct1, THEN spec, THEN spec, THEN mp, OF plain(4)]
  have a: "flatten_block (ToolUseBlock ''toolu_2'' ''Write'' [(''path'', PStr ''x.txt'')]) []
     = Inr [''**Write**'',
            ''```\<newline>{\<newline>  '' @ [CHR 0x22] @ ''path'' @ [CHR 0x22] @ '': ''
              @ [CHR 0x22] @ ''x.txt'' @ [CHR 0x22] @ ''\<newline>}\<newline>```'']"
    unfolding block dumps dict1 str by (simp add: numeral_2_eq_2)
  have b: "json_dumps (PDict [(''n'', PStr [CHR 0xE9, CHR ''t'', CHR 0xE9])])
     = ''{\<newline>  '' @ [CHR 0x22] @ ''n'' @ [CHR 0x22] @ '': ''
         @ [CHR 0x22, CHR 0xE9, CHR ''t'', CHR 0xE9, CHR 0x22] @ ''\<newline>}''"
    unfolding dumps dict1 str by (simp add: numeral_2_eq_2)
  have c: "json_dumps (PDict nested_input)
     = ''{\<newline>  '' @ [CHR 0x22] @ ''a'' @ [CHR 0x22] @ '': [\<newline>    1,\<newline>    {\<newline>      ''
         @ [CHR 0x22] @ ''b'' @ [CHR 0x22] @ '': null\<newline>    }\<newline>  ],\<newline>  ''
         @ [CHR 0x22] @ ''e'' @ [CHR 0x22] @ '': '' @ [CHR 0x22, CHR 0xE9, CHR 0x5C, CHR 0x22, CHR 0x22]
         @ '',\<newline>  '' @ [CHR 0x22] @ ''f'' @ [CHR 0x22] @ '': 1.5,\<newline>  ''
         @ [CHR 0x22] @ ''g'' @ [CHR 0x22] @ '': -120\<newline>}''"
    by code_simp
  from a b c show ?thesis by blast
qed

text \<open>
  C8. For a message that mentions the bot, is not the bot's own, and whose text is empty once
  the mention token is removed and the rest is stripped: the assistant backend is not
  queried, and with the \<open>empty_message\<close> template configured and taken by the platform
  that template is the one reply and nothing else happens.
\<close>

theorem empty_prompt_reply:
  assumes "author m \<noteq> user b" and "user b \<in> set (mentions m)" and "extract_prompt b m = []"
  shows "queried (on_message b accepts query m) = [] \<and>
     (\<forall>t. config_get (config b) ''messages'' ''empty_message'' = Inr t \<and> accepts t \<longrightarrow>
        on_message b accepts query m = idle\<lparr>replies := [t]\<rparr>)"
proof
  obtain r st where rt: "reply_template (config b) accepts ''empty_message'' idle = (r, st)"
    by (cases "reply_template (config b) accepts ''empty_message'' idle")
  have "queried st = []"
    using reply_template_queried [of "config b" accepts "''empty_message''" idle] rt
    by (simp add: idle_def)
  then have "queried (handle_mention b accepts query m) = []"
    using assms(3) rt by (cases r) (simp_all add: handle_mention_def try_body_def except_loop_queried)
  then show "queried (on_message b accepts query m) = []"
    using assms(1,2) by (simp add: on_message_mention)
next
  show "\<forall>t. config_get (config b) ''messages'' ''empty_message'' = Inr t \<and> accepts t \<longrightarrow>
        on_message b accepts query m = idle\<lparr>replies := [t]\<rparr>"
    using assms
    by (simp add: on_message_mention handle_mention_def try_body_def reply_template_sent idle_def)
qed

text \<open>C8 on a mention made of the token and blanks.\<close>

theorem empty_prompt_reply_witness:
  "queried (on_message example_bot accept_all one_answer empty_mention) = [] \<and>
   on_message example_bot accept_all one_answer empty_mention
     = idle\<lparr>replies := [''Please write a message.'']\<rparr>"
proof -
  have 1: "author empty_mention \<noteq> user example_bot" by code_simp
  have 2: "user example_bot \<in> set (mentions empty_mention)" by code_simp
  have 3: "extract_prompt example_bot empty_mention = []" by code_simp
  have 4: "config_get (config example_bot) ''messages'' ''empty_message'' = Inr ''Please write a message.''"
    by code_simp
  have 5: "accept_all ''Please write a message.''" by (simp add: accept_all_def)
  from empty_prompt_reply [where b = example_bot and m = empty_mention and query = one_answer
      and accepts = accept_all, OF 1 2 3]
  show ?thesis using 4 5 by blast
qed

text \<open>
  C9, as stated, fails: when the backend raises a group of two exceptions after a text
  fragment, two replies are sent, not one.
\<close>

theorem two_failures_two_replies:
  "replies (handle_mention example_bot accept_all two_timeouts example_mention)
      = [''An error occurred.'', ''An error occurred.''] \<and>
   replies (handle_mention example_bot accept_all two_timeouts example_mention)
      \<noteq> [''An error occurred.'']"
  by code_simp

text \<open>
  C9, amended. When the backend raises after some events, the fragments collected so far
  are discarded and nothing of them is sent; the replies are the \<open>general_error\<close>
  template, once when the error is a single exception and once for every member when it
  is an exception group, and the errors answered are logged. (When one of the events holds
  a \<open>Bash\<close> block without \<open>command\<close>, that \<open>KeyError\<close> is raised first, and is answered
  once.)
\<close>

theorem backend_failure_replies:
  assumes "failure (query (extract_prompt b m)) = Some e" and "extract_prompt b m \<noteq> []"
    and "config_get (config b) ''messages'' ''general_error'' = Inr g" and "accepts g"
  shows "handle_mention b accepts query m =
     (case flatten_events (events (query (extract_prompt b m))) [] of
        Inl k \<Rightarrow>
          \<lparr>replies = [g], errors_logged = [k], queried = [extract_prompt b m], escaped = None\<rparr>
      | Inr fragments \<Rightarrow>
          (case e of
             ExceptionGroup es \<Rightarrow>
               \<lparr>replies = replicate (length es) g, errors_logged = es,
                queried = [extract_prompt b m], escaped = None\<rparr>
           | _ \<Rightarrow>
               \<lparr>replies = [g], errors_logged = [e], queried = [extract_prompt b m], escaped = None\<rparr>))"
proof (cases "flatten_events (events (query (extract_prompt b m))) []")
  case (Inl k)
  then have k: "k = KeyError ''command''" by (rule flatten_events_Inl)
  from Inl have "flatten (query (extract_prompt b m)) = Inl k" by (simp add: flatten_def)
  from handle_mention_raised [where b = b and m = m and query = query and accepts = accepts,
      OF assms(2) this assms(3,4)]
  show ?thesis using Inl k by simp
next
  case (Inr fragments)
  with assms(1) have "flatten (query (extract_prompt b m)) = Inl e" by (simp add: flatten_def)
  from handle_mention_raised [where b = b and m = m and query = query and accepts = accepts,
      OF assms(2) this assms(3,4)]
  show ?thesis using Inr by (cases e) simp_all
qed

text \<open>C9, amended, on a backend that fails after one text fragment, with one error and with two.\<close>

theorem backend_failure_replies_witness:
  "handle_mention example_bot accept_all connection_lost example_mention =
     \<lparr>replies = [''An error occurred.''], errors_logged = [OtherError ''connection lost''],
      queried = [extract_prompt example_bot example_mention], escaped = None\<rparr> \<and>
   handle_mention example_bot accept_all two_timeouts example_mention =
     \<lparr>replies = replicate (length [OtherError ''timeout'', OtherError ''broken pipe'']) ''An error occurred.'',
      errors_logged = [OtherError ''timeout'', OtherError ''broken pipe''],
      queried = [extract_prompt example_bot example_mention], escaped = None\<rparr>"
proof -
  have 1: "failure (connection_lost (extract_prompt example_bot example_mention))
      = Some (OtherError ''connection lost'')"
    "failure (two_timeouts (extract_prompt example_bot example_mention))
      = Some (ExceptionGroup [OtherError ''timeout'', OtherError ''broken pipe''])"
    by (simp_all add: connection_lost_def two_timeouts_def)
  have 2: "extract_prompt example_bot example_mention \<noteq> []" by code_simp
  have 3: "config_get (config example_bot) ''messages'' ''general_error'' = Inr ''An error occurred.''"
    by code_simp
  have 4: "accept_all ''An error occurred.''" by (simp add: accept_all_def)
  have 5: "flatten_events (events (connection_lost (extract_prompt example_bot example_mention))) []
      = Inr [''partial'']"
    "flatten_events (events (two_timeouts (extract_prompt example_bot example_mention))) []
      = Inr [''partial'']"
    by (simp_all add: connection_lost_def two_timeouts_def)
  from backend_failure_replies [where b = example_bot and m = example_mention
      and query = connection_lost and accepts = accept_all, OF 1(1) 2 3 4]
  have a: "handle_mention example_bot accept_all connection_lost example_mention =
     \<lparr>replies = [''An error occurred.''], errors_logged = [OtherError ''connection lost''],
      queried = [extract_prompt example_bot example_mention], escaped = None\<rparr>"
    by (simp only: 5 sum.case py_exc.case)
  from backend_failure_replies [where b = example_bot and m = example_mention
      and query = two_timeouts and accepts = accept_all, OF 1(2) 2 3 4]
  have b: "handle_mention example_bot accept_all two_timeouts example_mention =
     \<lparr>replies = replicate (length [OtherError ''timeout'', OtherError ''broken pipe'']) ''An error occurred.'',
      errors_logged = [OtherError ''timeout'', OtherError ''broken pipe''],
      queried = [extract_prompt example_bot example_mention], escaped = None\<rparr>"
    by (simp only: 5 sum.case py_exc.case)
  from a b show ?thesis by blast
qed

text \<open>
  C10. A \<open>Bash\<close> tool-use block whose input has no \<open>command\<close> makes the flattener raise
  \<open>KeyError\<close>; wherever such a block stands in the events of the query, the handling ends
  in the fault boundary: the error is logged and the one reply is the \<open>general_error\<close>
  template.
\<close>

theorem bash_without_command_raises:
  assumes "AssistantMessage blocks \<in> set (events (query (extract_prompt b m)))"
    and "ToolUseBlock i ''Bash'' inp \<in> set blocks"
    and "''command'' \<notin> fst ` set inp"
    and "extract_prompt b m \<noteq> []"
    and "config_get (config b) ''messages'' ''general_error'' = Inr g" and "accepts g"
  shows "flatten_block (ToolUseBlock i ''Bash'' inp) responses = Inl (KeyError ''command'') \<and>
     handle_mention b accepts query m =
       \<lparr>replies = [g], errors_logged = [KeyError ''command''],
        queried = [extract_prompt b m], escaped = None\<rparr>"
proof -
  have "flatten (query (extract_prompt b m)) = Inl (KeyError ''command'')"
    by (simp add: flatten_def flatten_events_without_command [OF assms(1,2,3)])
  from handle_mention_raised [where b = b and m = m and query = query and accepts = accepts,
      OF assms(4) this assms(5,6)]
  have "handle_mention b accepts query m =
       \<lparr>replies = [g], errors_logged = [KeyError ''command''],
        queried = [extract_prompt b m], escaped = None\<rparr>"
    by simp
  with bash_block_without_command [OF assms(3)] show ?thesis by blast
qed

text \<open>C10 on a block with the key \<open>cmd\<close> in place of \<open>command\<close>.\<close>

theorem bash_without_command_raises_witness:
  "flatten_block (ToolUseBlock ''toolu_3'' ''Bash'' [(''cmd'', PStr ''ls'')]) [''running'']
      = Inl (KeyError ''command'') \<and>
   handle_mention example_bot accept_all bash_without_command example_mention =
     \<lparr>replies = [''An error occurred.''], errors_logged = [KeyError ''command''],
      queried = [extract_prompt example_bot example_mention], escaped = None\<rparr>"
proof -
  have 1: "AssistantMessage [TextBlock ''running'', ToolUseBlock ''toolu_3'' ''Bash'' [(''cmd'', PStr ''ls'')]]
      \<in> set (events (bash_without_command (extract_prompt example_bot example_mention)))"
    by (simp add: bash_without_command_def)
  have 2: "ToolUseBlock ''toolu_3'' ''Bash'' [(''cmd'', PStr ''ls'')]
      \<in> set [TextBlock ''running'', ToolUseBlock ''toolu_3'' ''Bash'' [(''cmd'', PStr ''ls'')]]"
    by simp
  have 3: "''command'' \<notin> fst ` set [(''cmd'', PStr ''ls'')]" by simp
  have 4: "extract_prompt example_bot example_mention \<noteq> []" by code_simp
  have 5: "config_get (config example_bot) ''messages'' ''general_error'' = Inr ''An error occurred.''"
    by code_simp
  have 6: "accept_all ''An error occurred.''" by (simp add: accept_all_def)
  show ?thesis
    by (rule bash_without_command_raises [where b = example_bot and m = example_mention
          and query = bash_without_command and accepts = accept_all, OF 1 2 3 4 5 6])
qed

end
